theory Spec2Isabelle
  imports Main
begin

section \<open>Data model of the VideoRoom component\<close>

text \<open>
  The session manager lives in \<^verbatim>\<open>src/components/VideoRoom.tsx\<close>. Its state is the React
  state of the component (\<^verbatim>\<open>useState\<close> cells), two refs (\<^verbatim>\<open>connections\<close>,
  \<^verbatim>\<open>cleanupFunctionsRef\<close>) and the objects of the browser and of PeerJS it holds on to.
  The React state and the refs are fields of the record \<open>world\<close>, and so are the variables
  that the functions made by each run of the effect hold on to; every call the component
  makes into the browser or into PeerJS is appended to the field \<open>trace\<close>, in the order
  the calls are issued.
\<close>

type_synonym peer_id = string
type_synonym conn_id = nat

datatype track_kind = Audio | Video

text \<open>A \<^verbatim>\<open>MediaStreamTrack\<close>: its \<^verbatim>\<open>id\<close> and its \<^verbatim>\<open>kind\<close>.\<close>

record track =
  track_id :: string
  kind :: track_kind

text \<open>A \<^verbatim>\<open>MediaStream\<close> is the list of its tracks, in the order they were added.\<close>

type_synonym media_stream = "track list"

datatype quality = Good | Fair | Poor

text \<open>The interface \<^verbatim>\<open>Stream\<close> (lines 32-38); optional fields are options.\<close>

record Stream =
  stream_id :: peer_id
  stream :: media_stream
  userName :: "string option"
  isScreenShare :: "bool option"
  connectionQuality :: "quality option"

datatype connection_status = Connecting | Connected | Disconnected | Error

text \<open>An \<^verbatim>\<open>RTCRtpSender\<close>: \<^verbatim>\<open>sender.track\<close> is a track or \<^verbatim>\<open>null\<close>.\<close>

record sender =
  sender_track :: "track option"

text \<open>
  A PeerJS \<^verbatim>\<open>MediaConnection\<close>. \<open>call_peer\<close> is \<^verbatim>\<open>call.peer\<close>; \<open>incoming\<close> tells which
  set of handlers the component attached (the ones of \<^verbatim>\<open>newPeer.on("call")\<close> or the ones of
  the discovery listener); \<open>peerConnection\<close> is the sender list of
  \<^verbatim>\<open>connection.peerConnection.getSenders()\<close>, or \<open>None\<close> when \<^verbatim>\<open>connection.peerConnection\<close>
  is missing.
\<close>

record call =
  call_peer :: peer_id
  incoming :: bool
  peerConnection :: "sender list option"

datatype channel = ListenerChannel | AnnouncerChannel

text \<open>The calls into the browser, PeerJS and the router that the component issues.\<close>

datatype action =
    GetUserMedia bool bool
  | NewPeer
  | NewChannel channel
  | PostMessage peer_id
  | SetInterval
  | ClearInterval
  | ChannelClose channel
  | PeerCall peer_id
  | CallAnswer peer_id
  | ReplaceTrack conn_id "track option"
  | TrackStop string
  | ConnClose conn_id
  | PeerDisconnect
  | PeerDestroy
  | Navigate

text \<open>The two cleanup closures pushed on \<^verbatim>\<open>cleanupFunctionsRef\<close> (lines 346-356, 394-410).\<close>

datatype cleanup = CleanupListener nat | CleanupAnnouncer

text \<open>
  The functions defined inside the effect (\<^verbatim>\<open>messageHandler\<close>, the cleanup function of lines
  415-451) read \<^verbatim>\<open>localStream\<close>, \<^verbatim>\<open>screenShareStream\<close> and \<^verbatim>\<open>peer\<close> of the render
  whose effect created them: the effect's dependencies (line 452) are the room id, the
  user id and the host flag, so a later \<^verbatim>\<open>setLocalStream\<close> does not re-run it. A
  \<open>closure\<close> is the three variables as one run of the effect holds them.

  \<^verbatim>\<open>localStream\<close> is a reference to a stream object, and \<^verbatim>\<open>toggleVideo\<close> adds and removes
  tracks of the object the state holds. The held reference is \<^verbatim>\<open>null\<close>, or the object the
  state still holds (\<open>HeldCurrent\<close>), or an object the state has replaced since, which
  nothing changes any more (\<open>HeldDetached\<close>, with its tracks). A screen-share stream is
  never changed after it was made, so it is held by its tracks.
\<close>

datatype held_stream = HeldNull | HeldCurrent | HeldDetached media_stream

record closure =
  heldLocalStream :: held_stream
  heldScreenShareStream :: "media_stream option"
  heldPeer :: bool

text \<open>
  A discovery listener made by \<^verbatim>\<open>listenForPeersInRoom\<close>: its \<^verbatim>\<open>myPeerId\<close>, the run of the
  effect whose variables its \<^verbatim>\<open>messageHandler\<close> reads (an index into \<open>effects\<close>), and
  whether its \<^verbatim>\<open>channel\<close> is still open (\<^verbatim>\<open>channel !== null\<close>).
\<close>

record listener =
  listenerPeerId :: peer_id
  listenerEffect :: nat
  channelOpen :: bool

record world =
  peer :: bool
  localStream :: "media_stream option"
  remoteStreams :: "Stream list"
  screenShareStream :: "media_stream option"
  isAudioEnabled :: bool
  isVideoEnabled :: bool
  isVideoLoading :: bool
  isScreenSharing :: bool
  isAnnotating :: bool
  participantCount :: int
  connectionStatus :: connection_status
  errorMessage :: string
  cleanupFunctionsRef :: "cleanup list"
  connections :: "(peer_id \<times> conn_id) list"
  calls :: "call list"
  effects :: "closure list"
  cleanupOf :: "nat option"
  peers :: "nat list"
  listeners :: "listener list"
  trace :: "action list"

text \<open>
  \<open>peer\<close> is \<^verbatim>\<open>peer !== null\<close>. \<open>connections\<close> is the object \<^verbatim>\<open>connections.current\<close>, a
  JavaScript object used as a dictionary from peer id to \<^verbatim>\<open>MediaConnection\<close>: an
  association list in the order the keys were created (\<open>values_of\<close> gives the order of
  enumeration) whose values are references into \<open>calls\<close>, the \<^verbatim>\<open>MediaConnection\<close> objects
  that have handlers of the component attached.

  \<open>effects\<close> has one closure for each run of the effect that got as far as \<^verbatim>\<open>initPeer\<close>.
  \<open>cleanupOf\<close> is the run whose cleanup function React holds, to call it before the next run
  of the effect and on unmount. \<open>peers\<close> lists the \<^verbatim>\<open>Peer\<close> objects made, each with the run
  of the effect that made it and whose variables its \<^verbatim>\<open>open\<close> handler passes on to the
  listener. \<open>listeners\<close> lists the discovery listeners made.

  The state on mount (lines 51-65, 73):
\<close>

definition initial :: world where
  "initial = \<lparr> peer = False, localStream = None, remoteStreams = [], screenShareStream = None,
     isAudioEnabled = True, isVideoEnabled = True, isVideoLoading = False,
     isScreenSharing = False, isAnnotating = False, participantCount = 1,
     connectionStatus = Connecting, errorMessage = [], cleanupFunctionsRef = [],
     connections = [], calls = [], effects = [], cleanupOf = None, peers = [],
     listeners = [], trace = [] \<rparr>"

definition log :: "action \<Rightarrow> world \<Rightarrow> world" where
  "log a w = w\<lparr>trace := trace w @ [a]\<rparr>"

text \<open>
  \<^verbatim>\<open>obj[k] = v\<close>: an existing key keeps its place in the order of creation, a new key goes
  to the end of it.
\<close>

fun assign :: "'k \<Rightarrow> 'v \<Rightarrow> ('k \<times> 'v) list \<Rightarrow> ('k \<times> 'v) list" where
  "assign k v [] = [(k, v)]"
| "assign k v ((k', v') # kvs) = (if k' = k then (k, v) # kvs else (k', v') # assign k v kvs)"

text \<open>\<^verbatim>\<open>delete obj[k]\<close>.\<close>

definition delete :: "'k \<Rightarrow> ('k \<times> 'v) list \<Rightarrow> ('k \<times> 'v) list" where
  "delete k kvs = filter (\<lambda>kv. fst kv \<noteq> k) kvs"

text \<open>
  \<^verbatim>\<open>Object.values(obj)\<close> enumerates the keys that are array indices first, in ascending
  numeric order, and then the other string keys in the order they were added. An array
  index is the decimal numeral, without leading zeros, of a number below 4294967295.
\<close>

definition isDigit :: "char \<Rightarrow> bool" where
  "isDigit c = (48 \<le> (of_char c :: nat) \<and> (of_char c :: nat) \<le> 57)"

definition decimal :: "string \<Rightarrow> nat" where
  "decimal s = foldl (\<lambda>n c. 10 * n + (of_char c - 48)) 0 s"

definition isArrayIndex :: "string \<Rightarrow> bool" where
  "isArrayIndex s =
     (case s of
        [] \<Rightarrow> False
      | c # cs \<Rightarrow> list_all isDigit s \<and> (c \<noteq> CHR ''0'' \<or> cs = []) \<and> decimal s < 4294967295)"

definition values_of :: "(string \<times> 'v) list \<Rightarrow> 'v list" where
  "values_of kvs =
     map snd (sort_key (\<lambda>kv. decimal (fst kv)) (filter (\<lambda>kv. isArrayIndex (fst kv)) kvs)) @
     map snd (filter (\<lambda>kv. \<not> isArrayIndex (fst kv)) kvs)"


section \<open>Call handling: inbound calls, the discovery listener, call events\<close>

text \<open>
  The \<^verbatim>\<open>stream\<close> handlers (lines 182-202 and 283-303). Both look the peer id up in
  \<^verbatim>\<open>remoteStreams\<close> and append an entry, and count a participant, only when there is none;
  they differ in the user name they store.
\<close>

definition onStream :: "string \<Rightarrow> peer_id \<Rightarrow> media_stream \<Rightarrow> world \<Rightarrow> world" where
  "onStream name p remoteStream w =
     (if find (\<lambda>s. stream_id s = p) (remoteStreams w) = None
      then w\<lparr>participantCount := participantCount w + 1,
             remoteStreams := remoteStreams w @
               [\<lparr>stream_id = p, stream = remoteStream, userName = Some name,
                 isScreenShare = None, connectionQuality = Some Good\<rparr>]\<rparr>
      else w)"

text \<open>The \<^verbatim>\<open>close\<close> handler of an inbound call (lines 210-222).\<close>

definition onCloseIncoming :: "peer_id \<Rightarrow> world \<Rightarrow> world" where
  "onCloseIncoming p w =
     w\<lparr>remoteStreams := filter (\<lambda>s. stream_id s \<noteq> p) (remoteStreams w),
       participantCount := max 1 (participantCount w - 1)\<rparr>"

text \<open>The \<^verbatim>\<open>close\<close> handler of an outbound call (lines 309-323).\<close>

definition onCloseOutgoing :: "peer_id \<Rightarrow> world \<Rightarrow> world" where
  "onCloseOutgoing p w =
     w\<lparr>connections := delete p (connections w),
       remoteStreams := filter (\<lambda>s. stream_id s \<noteq> p) (remoteStreams w),
       participantCount := max 1 (participantCount w - 1)\<rparr>"

text \<open>The \<^verbatim>\<open>error\<close> handlers (lines 205-207 and 305-307) write to the console only.\<close>

definition onCallError :: "peer_id \<Rightarrow> world \<Rightarrow> world" where
  "onCallError p w = w"

text \<open>
  What \<^verbatim>\<open>call.answer(stream)\<close> does is PeerJS's: it throws, or the call is answered and has
  the given \<^verbatim>\<open>peerConnection\<close>.
\<close>

datatype answer_outcome = AnswerThrows | Answered "sender list option"

text \<open>
  The handler of \<^verbatim>\<open>newPeer.on("call")\<close> (lines 174-229). When \<^verbatim>\<open>call.answer\<close> throws, the
  \<^verbatim>\<open>catch\<close> logs and nothing is attached or stored.
\<close>

definition onCall :: "peer_id \<Rightarrow> answer_outcome \<Rightarrow> world \<Rightarrow> world" where
  "onCall p outcome w =
     (let w1 = log (CallAnswer p) w in
      case outcome of
        AnswerThrows \<Rightarrow> w1
      | Answered pc \<Rightarrow>
          w1\<lparr>calls := calls w1 @ [\<lparr>call_peer = p, incoming = True, peerConnection = pc\<rparr>],
             connections := assign p (length (calls w1)) (connections w1)\<rparr>)"

text \<open>
  What \<^verbatim>\<open>peerInstance.call(peerId, localStream)\<close> does is PeerJS's: it throws, returns
  \<^verbatim>\<open>undefined\<close>, or returns a new \<^verbatim>\<open>MediaConnection\<close> with the given \<^verbatim>\<open>peerConnection\<close>.
\<close>

datatype call_outcome = CallThrows | CallUndefined | CallCreated "sender list option"

text \<open>
  \<^verbatim>\<open>messageHandler\<close> of \<^verbatim>\<open>listenForPeersInRoom\<close> (lines 260-337). \<open>myPeerId\<close> and
  \<open>localStream'\<close> are the variables the handler reads: \<open>localStream'\<close> is the variable
  \<^verbatim>\<open>localStream\<close> of the render whose effect created the listener, not the field of
  \<open>world\<close>. Only its truthiness is used; the stream is handed to PeerJS.
\<close>

definition messageHandler ::
    "peer_id \<Rightarrow> media_stream option \<Rightarrow> peer_id \<Rightarrow> string \<Rightarrow> call_outcome \<Rightarrow> world \<Rightarrow> world" where
  "messageHandler myPeerId localStream' peerId act outcome w =
     (if peerId = myPeerId then w
      else if act = ''join'' then
        (case localStream' of
           None \<Rightarrow> w
         | Some ls \<Rightarrow>
             (let w1 = log (PeerCall peerId) w in
              case outcome of
                CallThrows \<Rightarrow> w1
              | CallUndefined \<Rightarrow> w1
              | CallCreated pc \<Rightarrow>
                  w1\<lparr>connections := assign peerId (length (calls w1)) (connections w1),
                     calls := calls w1 @
                       [\<lparr>call_peer = peerId, incoming = False, peerConnection = pc\<rparr>]\<rparr>))
      else w)"

text \<open>
  An event on a \<^verbatim>\<open>MediaConnection\<close> runs the handlers the component attached to that
  object; an object the component attached nothing to (an index outside \<open>calls\<close>) has no
  handler to run. Handlers stay attached after \<^verbatim>\<open>close\<close>, so a second \<^verbatim>\<open>close\<close> event runs
  the handler again.
\<close>

definition callStream :: "conn_id \<Rightarrow> media_stream \<Rightarrow> world \<Rightarrow> world" where
  "callStream c remoteStream w =
     (if c < length (calls w)
      then (let k = calls w ! c in
            onStream (if incoming k then ''Participant'' else ''Remote User'')
              (call_peer k) remoteStream w)
      else w)"

definition callError :: "conn_id \<Rightarrow> world \<Rightarrow> world" where
  "callError c w =
     (if c < length (calls w) then onCallError (call_peer (calls w ! c)) w else w)"

definition callClose :: "conn_id \<Rightarrow> world \<Rightarrow> world" where
  "callClose c w =
     (if c < length (calls w)
      then (let k = calls w ! c in
            if incoming k then onCloseIncoming (call_peer k) w
            else onCloseOutgoing (call_peer k) w)
      else w)"


section \<open>Media state controller: \<^verbatim>\<open>toggleVideo\<close>\<close>

text \<open>
  \<^verbatim>\<open>senders.find(sender => sender.track && sender.track.kind === 'video')\<close> (line 496) and
  \<^verbatim>\<open>senders.find(sender => sender.track && sender.track.kind === 'video' &&
  sender.track.id === track.id)\<close> (line 544).
\<close>

definition isVideoSender :: "sender \<Rightarrow> bool" where
  "isVideoSender s = (case sender_track s of None \<Rightarrow> False | Some t \<Rightarrow> kind t = Video)"

definition carries :: "track \<Rightarrow> sender \<Rightarrow> bool" where
  "carries tr s =
     (case sender_track s of None \<Rightarrow> False
      | Some t \<Rightarrow> kind t = Video \<and> track_id t = track_id tr)"

text \<open>
  \<^verbatim>\<open>videoSender.replaceTrack(t)\<close> on the sender that \<^verbatim>\<open>find\<close> returned, the first one
  satisfying the test. The promise \<^verbatim>\<open>replaceTrack\<close> returns is taken as settled before the
  next user action, so \<^verbatim>\<open>sender.track\<close> is the new value from then on.
\<close>

fun replaceFirst :: "(sender \<Rightarrow> bool) \<Rightarrow> track option \<Rightarrow> sender list \<Rightarrow> sender list" where
  "replaceFirst P t [] = []"
| "replaceFirst P t (s # ss) =
     (if P s then s\<lparr>sender_track := t\<rparr> # ss else s # replaceFirst P t ss)"

text \<open>
  The body of the \<^verbatim>\<open>forEach\<close> over \<^verbatim>\<open>Object.values(connections.current)\<close> (lines 489-510
  and 540-557) for one connection: nothing happens without a \<^verbatim>\<open>peerConnection\<close> or
  without a sender that passes the test.
\<close>

definition replaceVideoIn :: "(sender \<Rightarrow> bool) \<Rightarrow> track option \<Rightarrow> conn_id \<Rightarrow> world \<Rightarrow> world" where
  "replaceVideoIn P t c w =
     (if c < length (calls w) then
        (case peerConnection (calls w ! c) of
           None \<Rightarrow> w
         | Some senders \<Rightarrow>
             (case find P senders of
                None \<Rightarrow> w
              | Some videoSender \<Rightarrow>
                  log (ReplaceTrack c t)
                    (w\<lparr>calls := (calls w)
                        [c := (calls w ! c)\<lparr>peerConnection := Some (replaceFirst P t senders)\<rparr>]\<rparr>)))
      else w)"

text \<open>\<^verbatim>\<open>MediaStream.addTrack\<close> ignores a track the stream has; \<^verbatim>\<open>removeTrack\<close> drops it.\<close>

definition addTrack :: "track \<Rightarrow> media_stream \<Rightarrow> media_stream" where
  "addTrack t ls = (if t \<in> set ls then ls else ls @ [t])"

definition removeTrack :: "track \<Rightarrow> media_stream \<Rightarrow> media_stream" where
  "removeTrack t ls = filter (\<lambda>u. u \<noteq> t) ls"

definition getVideoTracks :: "media_stream \<Rightarrow> track list" where
  "getVideoTracks ls = filter (\<lambda>t. kind t = Video) ls"

text \<open>The body of \<^verbatim>\<open>videoTracks.forEach\<close> (lines 536-569) for one track.\<close>

definition videoOffTrack :: "track \<Rightarrow> world \<Rightarrow> world" where
  "videoOffTrack tr w =
     (let w1 = fold (replaceVideoIn (carries tr) None) (values_of (connections w)) w;
          w2 = w1\<lparr>localStream := map_option (removeTrack tr) (localStream w1)\<rparr>
      in log (TrackStop (track_id tr)) w2)"

text \<open>What \<^verbatim>\<open>getUserMedia({ video: true })\<close> gives: it rejects, or resolves with a stream.\<close>

datatype camera_outcome = CameraThrows | CameraStream media_stream

definition turnedOn :: "world \<Rightarrow> world" where
  "turnedOn w =
     w\<lparr>isVideoEnabled := True, isVideoLoading := False,
       errorMessage := ''Camera has been turned on.''\<rparr>"

text \<open>
  \<^verbatim>\<open>toggleVideo\<close> (lines 466-588). The platform calls in it (\<^verbatim>\<open>getSenders\<close>,
  \<^verbatim>\<open>replaceTrack\<close>, \<^verbatim>\<open>addTrack\<close>, \<^verbatim>\<open>removeTrack\<close>, \<^verbatim>\<open>stop\<close>) are taken to return
  normally, so the \<^verbatim>\<open>catch\<close> blocks around them, which log or set a message, have no
  branch here; a rejected camera request is the outcome \<open>CameraThrows\<close>. The timers that
  clear the status message after three seconds are left out.
\<close>

definition toggleVideo :: "camera_outcome \<Rightarrow> world \<Rightarrow> world" where
  "toggleVideo cam w =
     (if \<not> isVideoEnabled w then
        (let w1 = w\<lparr>isVideoLoading := True\<rparr> in
         case localStream w1 of
           None \<Rightarrow> turnedOn w1
         | Some ls \<Rightarrow>
             (let w2 = log (GetUserMedia True False) w1 in
              case cam of
                CameraThrows \<Rightarrow>
                  w2\<lparr>errorMessage :=
                        ''Could not access camera. It might be in use by another application.'',
                     isVideoLoading := False\<rparr>
              | CameraStream videoStream \<Rightarrow>
                  (case getVideoTracks videoStream of
                     [] \<Rightarrow> turnedOn w2
                   | videoTrack # rest \<Rightarrow>
                       turnedOn
                         (fold (replaceVideoIn isVideoSender (Some videoTrack))
                            (values_of (connections w2))
                            (w2\<lparr>localStream := Some (addTrack videoTrack ls)\<rparr>)))))
      else
        (let w1 = w\<lparr>isVideoLoading := True\<rparr>;
             w2 = (case localStream w1 of
                     None \<Rightarrow> w1
                   | Some ls \<Rightarrow>
                       (let videoTracks = getVideoTracks ls;
                            w' = fold videoOffTrack videoTracks w1
                        in if videoTracks \<noteq> []
                           then w'\<lparr>errorMessage := ''Camera has been turned off completely.''\<rparr>
                           else w'))
         in w2\<lparr>isVideoEnabled := False, isVideoLoading := False\<rparr>))"


section \<open>Session lifecycle: start and \<^verbatim>\<open>leaveRoom\<close>\<close>

text \<open>
  Calls issued one after the other inside one \<^verbatim>\<open>try\<close> block: each is issued and logged; the
  first that throws ends the block. \<open>thr\<close> says which calls throw. The result tells
  whether the block was left by an exception.
\<close>

fun attempt :: "(action \<Rightarrow> bool) \<Rightarrow> action list \<Rightarrow> world \<Rightarrow> world \<times> bool" where
  "attempt thr [] w = (w, False)"
| "attempt thr (a # as) w = (if thr a then (log a w, True) else attempt thr as (log a w))"

text \<open>\<^verbatim>\<open>actualRoomId = roomId || roomIdFromState || id || ""\<close> (line 82).\<close>

definition orEmpty :: "string option \<Rightarrow> string" where
  "orEmpty x = (case x of None \<Rightarrow> [] | Some s \<Rightarrow> s)"

definition actualRoomId :: "string \<Rightarrow> string option \<Rightarrow> string option \<Rightarrow> string" where
  "actualRoomId roomId roomIdFromState id' =
     (if roomId \<noteq> [] then roomId
      else case roomIdFromState of
             None \<Rightarrow> orEmpty id'
           | Some r \<Rightarrow> if r \<noteq> [] then r else orEmpty id')"

text \<open>
  What a \<^verbatim>\<open>getUserMedia\<close> request gives: it rejects with an error of some \<^verbatim>\<open>name\<close> (\<open>Inl\<close>)
  or resolves with a stream.
\<close>

type_synonym media_result = "string + media_stream"

text \<open>
  The media acquisition of \<^verbatim>\<open>initPeer\<close> (lines 100-138). \<open>first\<close> is the outcome of the
  request for video and audio, \<open>second\<close> the outcome of the audio-only request, should it
  be made. The result is the stream, or \<open>None\<close> when \<^verbatim>\<open>mediaErr\<close> is thrown on.
\<close>

definition acquireMedia :: "media_result \<Rightarrow> media_result \<Rightarrow> world \<Rightarrow> world \<times> media_stream option" where
  "acquireMedia first second w =
     (let w1 = log (GetUserMedia True True) w in
      case first of
        Inr s \<Rightarrow> (w1, Some s)
      | Inl name \<Rightarrow>
          if name = ''NotReadableError'' \<or> name = ''AbortError'' then
            (let w2 = log (GetUserMedia False True) w1 in
             case second of
               Inr s \<Rightarrow>
                 (w2\<lparr>isVideoEnabled := False,
                     errorMessage :=
                       ''Camera is in use by another application. Using audio only mode.''\<rparr>,
                  Some s)
             | Inl audioErr \<Rightarrow>
                 (w2\<lparr>isAudioEnabled := False, isVideoEnabled := False,
                     errorMessage :=
                       ''Could not access camera or microphone. Joining in view-only mode.'',
                     connectionStatus := Connected\<rparr>,
                  Some []))
          else
            (w1\<lparr>errorMessage :=
                   ''Could not access camera or microphone. Please check permissions.'',
                connectionStatus := Error\<rparr>,
             None))"

text \<open>The variables of the current render, as a function defined in it holds them.\<close>

definition capture :: "world \<Rightarrow> closure" where
  "capture w =
     \<lparr>heldLocalStream = (case localStream w of None \<Rightarrow> HeldNull | Some ls \<Rightarrow> HeldCurrent),
      heldScreenShareStream = screenShareStream w,
      heldPeer = peer w\<rparr>"

text \<open>The stream a held reference points to, if any.\<close>

definition held :: "world \<Rightarrow> held_stream \<Rightarrow> media_stream option" where
  "held w h =
     (case h of HeldNull \<Rightarrow> None | HeldCurrent \<Rightarrow> localStream w | HeldDetached ls \<Rightarrow> Some ls)"

text \<open>
  \<^verbatim>\<open>setLocalStream(stream)\<close> with a new stream object: the closures that hold the object the
  state held so far go on holding that object, with the tracks it has.
\<close>

definition detach :: "media_stream option \<Rightarrow> closure \<Rightarrow> closure" where
  "detach old c =
     (case heldLocalStream c of
        HeldCurrent \<Rightarrow>
          c\<lparr>heldLocalStream := (case old of None \<Rightarrow> HeldNull | Some ls \<Rightarrow> HeldDetached ls)\<rparr>
      | HeldNull \<Rightarrow> c
      | HeldDetached ls \<Rightarrow> c)"

definition setLocalStream :: "media_stream \<Rightarrow> world \<Rightarrow> world" where
  "setLocalStream s w =
     w\<lparr>localStream := Some s, effects := map (detach (localStream w)) (effects w)\<rparr>"

text \<open>
  \<^verbatim>\<open>initPeer\<close> (lines 98-248): the outer \<^verbatim>\<open>catch\<close> takes the rethrown media error and an
  exception of \<^verbatim>\<open>new Peer\<close>. \<^verbatim>\<open>initPeer\<close> and the handlers it attaches are functions of this
  run of the effect: the variables they read become a new entry of \<open>effects\<close>, and the new
  peer is listed with the index of that entry. Attaching the handlers changes no state.
\<close>

definition failedToInitialize :: "world \<Rightarrow> world" where
  "failedToInitialize w =
     w\<lparr>errorMessage := ''Failed to initialize video chat'', connectionStatus := Error\<rparr>"

definition initPeer :: "(action \<Rightarrow> bool) \<Rightarrow> media_result \<Rightarrow> media_result \<Rightarrow> world \<Rightarrow> world" where
  "initPeer thr first second w =
     (let e = length (effects w);
          w0 = w\<lparr>effects := effects w @ [capture w]\<rparr>
      in case acquireMedia first second w0 of
        (w1, None) \<Rightarrow> failedToInitialize w1
      | (w1, Some s) \<Rightarrow>
          (let w2 = log NewPeer (setLocalStream s w1) in
           if thr NewPeer then failedToInitialize w2
           else w2\<lparr>peers := peers w2 @ [e], peer := True\<rparr>))"

text \<open>The body of the effect (lines 85-413), for the resolved room id.\<close>

definition videoRoomEffect ::
    "(action \<Rightarrow> bool) \<Rightarrow> string \<Rightarrow> media_result \<Rightarrow> media_result \<Rightarrow> world \<Rightarrow> world" where
  "videoRoomEffect thr room first second w =
     (let w1 = w\<lparr>cleanupFunctionsRef := []\<rparr> in
      if room = [] then w1\<lparr>errorMessage := ''Room ID is missing'', connectionStatus := Error\<rparr>
      else initPeer thr first second w1)"

text \<open>
  \<^verbatim>\<open>listenForPeersInRoom\<close> and \<^verbatim>\<open>announcePeerInRoom\<close> (lines 251-411): each returns its
  cleanup closure, or \<^verbatim>\<open>null\<close> when setting up throws. \<^verbatim>\<open>sendAnnouncement\<close> catches what
  \<^verbatim>\<open>postMessage\<close> throws. The new listener reads the variables of run \<open>e\<close> of the effect,
  and its cleanup closure knows which listener it closes.
\<close>

definition listenForPeersInRoom ::
    "(action \<Rightarrow> bool) \<Rightarrow> nat \<Rightarrow> peer_id \<Rightarrow> world \<Rightarrow> world \<times> cleanup option" where
  "listenForPeersInRoom thr e myPeerId w =
     (case attempt thr [NewChannel ListenerChannel] w of
        (w1, True) \<Rightarrow> (w1, None)
      | (w1, False) \<Rightarrow>
          (w1\<lparr>listeners := listeners w1 @
               [\<lparr>listenerPeerId = myPeerId, listenerEffect = e, channelOpen = True\<rparr>]\<rparr>,
           Some (CleanupListener (length (listeners w1)))))"

definition announcePeerInRoom :: "(action \<Rightarrow> bool) \<Rightarrow> peer_id \<Rightarrow> world \<Rightarrow> world \<times> cleanup option" where
  "announcePeerInRoom thr myPeerId w =
     (case attempt thr [NewChannel AnnouncerChannel] w of
        (w1, True) \<Rightarrow> (w1, None)
      | (w1, False) \<Rightarrow>
          (let w2 = fst (attempt thr [PostMessage myPeerId] w1) in
           case attempt thr [SetInterval] w2 of
             (w3, True) \<Rightarrow> (w3, None)
           | (w3, False) \<Rightarrow> (w3, Some CleanupAnnouncer)))"

text \<open>
  The handler of \<^verbatim>\<open>newPeer.on("open")\<close> (lines 154-172), for a peer made by run \<open>e\<close> of the
  effect.
\<close>

definition onOpen :: "(action \<Rightarrow> bool) \<Rightarrow> nat \<Rightarrow> peer_id \<Rightarrow> world \<Rightarrow> world" where
  "onOpen thr e myPeerId w =
     (let w1 = w\<lparr>connectionStatus := Connected\<rparr>;
          (w2, cleanupListener) = listenForPeersInRoom thr e myPeerId w1;
          (w3, cleanupAnnouncer) = announcePeerInRoom thr myPeerId w2
      in w3\<lparr>cleanupFunctionsRef :=
               cleanupFunctionsRef w3 @ (case cleanupListener of None \<Rightarrow> [] | Some c \<Rightarrow> [c])
                 @ (case cleanupAnnouncer of None \<Rightarrow> [] | Some c \<Rightarrow> [c])\<rparr>)"

text \<open>The handlers of \<^verbatim>\<open>newPeer.on("error")\<close> and \<^verbatim>\<open>newPeer.on("disconnected")\<close> (lines 231-240).\<close>

definition onPeerError :: "string \<Rightarrow> world \<Rightarrow> world" where
  "onPeerError message w =
     w\<lparr>errorMessage := ''Connection error: '' @ message, connectionStatus := Error\<rparr>"

definition onDisconnected :: "world \<Rightarrow> world" where
  "onDisconnected w = w\<lparr>connectionStatus := Disconnected\<rparr>"

text \<open>
  What a cleanup closure issues, inside its own \<^verbatim>\<open>try\<close> (lines 346-356 and 394-410). A
  closure is only returned when its channel (and interval) exists.
\<close>

fun cleanupCalls :: "cleanup \<Rightarrow> action list" where
  "cleanupCalls (CleanupListener l) = [ChannelClose ListenerChannel]"
| "cleanupCalls CleanupAnnouncer = [ClearInterval, ChannelClose AnnouncerChannel]"

text \<open>
  The cleanup closure of a listener sets its \<^verbatim>\<open>channel\<close> to \<^verbatim>\<open>null\<close> once \<^verbatim>\<open>channel.close()\<close>
  has returned (lines 348-352); a closed channel delivers no message any more.
\<close>

definition unsubscribe :: "(action \<Rightarrow> bool) \<Rightarrow> cleanup \<Rightarrow> listener list \<Rightarrow> listener list" where
  "unsubscribe thr c ls =
     (case c of
        CleanupListener l \<Rightarrow>
          if thr (ChannelClose ListenerChannel) \<or> \<not> l < length ls then ls
          else ls[l := (ls ! l)\<lparr>channelOpen := False\<rparr>]
      | CleanupAnnouncer \<Rightarrow> ls)"

definition runCleanup :: "(action \<Rightarrow> bool) \<Rightarrow> cleanup \<Rightarrow> world \<Rightarrow> world" where
  "runCleanup thr c w =
     (let w1 = fst (attempt thr (cleanupCalls c) w)
      in w1\<lparr>listeners := unsubscribe thr c (listeners w1)\<rparr>)"

text \<open>
  The four \<^verbatim>\<open>try\<close> blocks of \<^verbatim>\<open>leaveRoom\<close> (lines 635-694), in the order of the source.
  Each cleanup closure catches its own exceptions, so the first block always empties
  \<^verbatim>\<open>cleanupFunctionsRef\<close>. The two \<^verbatim>\<open>forEach\<close> loops that stop tracks share one \<^verbatim>\<open>try\<close>. The
  registry is emptied after the loop that closes the connections, inside the same \<^verbatim>\<open>try\<close>.
\<close>

definition runCleanups :: "(action \<Rightarrow> bool) \<Rightarrow> world \<Rightarrow> world" where
  "runCleanups thr w =
     (fold (runCleanup thr) (cleanupFunctionsRef w) w)\<lparr>cleanupFunctionsRef := []\<rparr>"

definition getTracks :: "media_stream option \<Rightarrow> track list" where
  "getTracks s = (case s of None \<Rightarrow> [] | Some ts \<Rightarrow> ts)"

definition stopCalls :: "world \<Rightarrow> action list" where
  "stopCalls w =
     map (\<lambda>t. TrackStop (track_id t)) (getTracks (localStream w)) @
     map (\<lambda>t. TrackStop (track_id t)) (getTracks (screenShareStream w))"

definition stopMediaTracks :: "(action \<Rightarrow> bool) \<Rightarrow> world \<Rightarrow> world" where
  "stopMediaTracks thr w = fst (attempt thr (stopCalls w) w)"

definition closeCalls :: "world \<Rightarrow> action list" where
  "closeCalls w = map ConnClose (values_of (connections w))"

definition closeConnections :: "(action \<Rightarrow> bool) \<Rightarrow> world \<Rightarrow> world" where
  "closeConnections thr w =
     (case attempt thr (closeCalls w) w of
        (w1, True) \<Rightarrow> w1
      | (w1, False) \<Rightarrow> w1\<lparr>connections := []\<rparr>)"

definition peerCalls :: "world \<Rightarrow> action list" where
  "peerCalls w = (if peer w then [PeerDisconnect, PeerDestroy] else [])"

definition disconnectPeer :: "(action \<Rightarrow> bool) \<Rightarrow> world \<Rightarrow> world" where
  "disconnectPeer thr w = fst (attempt thr (peerCalls w) w)"

text \<open>
  \<^verbatim>\<open>leaveRoom\<close>. \<^verbatim>\<open>navigate("/")\<close> stands outside every \<^verbatim>\<open>try\<close>: the second component
  tells whether \<^verbatim>\<open>leaveRoom\<close> itself throws. What PeerJS emits in answer to the calls (the
  \<^verbatim>\<open>close\<close> event of a connection, the \<^verbatim>\<open>disconnected\<close> event of the peer) is not part of
  \<^verbatim>\<open>leaveRoom\<close>: such an event runs its handler as an event of its own.
\<close>

definition leaveRoom :: "(action \<Rightarrow> bool) \<Rightarrow> world \<Rightarrow> world \<times> bool" where
  "leaveRoom thr w =
     (let w1 = runCleanups thr w;
          w2 = stopMediaTracks thr w1;
          w3 = closeConnections thr w2;
          w4 = disconnectPeer thr w3
      in (log Navigate w4, thr Navigate))"


section \<open>The effect's cleanup function\<close>

text \<open>
  The cleanup function the effect returns (lines 415-451), for the closure of its run. The
  cleanup closures are run as in \<^verbatim>\<open>leaveRoom\<close>; the calls after them stand in no \<^verbatim>\<open>try\<close>,
  so the first that throws ends the function. It stops the tracks of the streams its run
  holds and disconnects the peer its run holds; it closes no connection. The result tells
  whether it throws.
\<close>

definition heldCalls :: "world \<Rightarrow> closure \<Rightarrow> action list" where
  "heldCalls w c =
     map (\<lambda>t. TrackStop (track_id t)) (getTracks (held w (heldLocalStream c))) @
     map (\<lambda>t. TrackStop (track_id t)) (getTracks (heldScreenShareStream c)) @
     (if heldPeer c then [PeerDisconnect, PeerDestroy] else [])"

definition effectCleanup :: "(action \<Rightarrow> bool) \<Rightarrow> closure \<Rightarrow> world \<Rightarrow> world \<times> bool" where
  "effectCleanup thr c w = (let w1 = runCleanups thr w in attempt thr (heldCalls w1 c) w1)"

text \<open>
  React calls the cleanup function of the last run of the effect, if that run returned
  one, before it runs the effect again and when the component unmounts.
\<close>

definition reactCleanup :: "(action \<Rightarrow> bool) \<Rightarrow> world \<Rightarrow> world \<times> bool" where
  "reactCleanup thr w =
     (case cleanupOf w of
        None \<Rightarrow> (w, False)
      | Some e \<Rightarrow>
          if e < length (effects w)
          then effectCleanup thr (effects w ! e) (w\<lparr>cleanupOf := None\<rparr>)
          else (w\<lparr>cleanupOf := None\<rparr>, False))"

text \<open>
  React runs the effect on mount and whenever a dependency of line 452 has changed: the
  cleanup function of the run before comes first. With an empty room id the effect returns
  no cleanup function (line 95), otherwise the one of this run. When the cleanup function
  throws, the error is React's to handle and the effect is not modelled any further.
\<close>

definition runEffect ::
    "(action \<Rightarrow> bool) \<Rightarrow> string \<Rightarrow> media_result \<Rightarrow> media_result \<Rightarrow> world \<Rightarrow> world" where
  "runEffect thr room first second w =
     (case reactCleanup thr w of
        (w1, True) \<Rightarrow> w1
      | (w1, False) \<Rightarrow>
          (videoRoomEffect thr room first second w1)
            \<lparr>cleanupOf := (if room = [] then None else Some (length (effects w1)))\<rparr>)"


section \<open>Events and reachable states\<close>

text \<open>
  The events the component reacts to. \<open>Mount\<close> is a run of the effect for a resolved room
  id (the first one, or a later one after a dependency changed), \<open>Unmount\<close> the unmounting
  of the component; the other events run one handler each. What the platform answers is
  part of the event. \<open>Open\<close>, \<open>IncomingCall\<close>, \<open>PeerErrorEv\<close> and \<open>PeerDisconnectedEv\<close>
  name the peer object that emits the event, \<open>Message\<close> the listener whose channel receives
  the message, the call events the connection object.
\<close>

datatype event =
    Mount string media_result media_result
  | Unmount
  | Open nat peer_id
  | IncomingCall nat peer_id answer_outcome
  | Message nat peer_id string call_outcome
  | StreamEv conn_id media_stream
  | ErrorEv conn_id
  | CloseEv conn_id
  | PeerErrorEv nat string
  | PeerDisconnectedEv nat
  | ToggleVideo camera_outcome
  | LeaveRoom

text \<open>
  An event of a peer object runs the handler that \<^verbatim>\<open>initPeer\<close> attached to it; a peer object
  that was never made emits nothing.
\<close>

definition peerOpen :: "(action \<Rightarrow> bool) \<Rightarrow> nat \<Rightarrow> peer_id \<Rightarrow> world \<Rightarrow> world" where
  "peerOpen thr k p w = (if k < length (peers w) then onOpen thr (peers w ! k) p w else w)"

definition peerCall :: "nat \<Rightarrow> peer_id \<Rightarrow> answer_outcome \<Rightarrow> world \<Rightarrow> world" where
  "peerCall k p outcome w = (if k < length (peers w) then onCall p outcome w else w)"

definition peerError :: "nat \<Rightarrow> string \<Rightarrow> world \<Rightarrow> world" where
  "peerError k message w = (if k < length (peers w) then onPeerError message w else w)"

definition peerDisconnected :: "nat \<Rightarrow> world \<Rightarrow> world" where
  "peerDisconnected k w = (if k < length (peers w) then onDisconnected w else w)"

text \<open>
  The \<^verbatim>\<open>localStream\<close> that the functions of run \<open>e\<close> of the effect read, and the delivery of
  a message to a listener: its \<^verbatim>\<open>messageHandler\<close> runs with the listener's \<^verbatim>\<open>myPeerId\<close> and
  the \<^verbatim>\<open>localStream\<close> of the listener's run of the effect. A listener that was never made,
  or whose channel is closed, receives nothing.
\<close>

definition heldBy :: "world \<Rightarrow> nat \<Rightarrow> media_stream option" where
  "heldBy w e = (if e < length (effects w) then held w (heldLocalStream (effects w ! e)) else None)"

definition channelMessage :: "nat \<Rightarrow> peer_id \<Rightarrow> string \<Rightarrow> call_outcome \<Rightarrow> world \<Rightarrow> world" where
  "channelMessage l p act outcome w =
     (if l < length (listeners w) then
        (let L = listeners w ! l in
         if channelOpen L
         then messageHandler (listenerPeerId L) (heldBy w (listenerEffect L)) p act outcome w
         else w)
      else w)"

fun step :: "(action \<Rightarrow> bool) \<Rightarrow> event \<Rightarrow> world \<Rightarrow> world" where
  "step thr (Mount room first second) w = runEffect thr room first second w"
| "step thr Unmount w = fst (reactCleanup thr w)"
| "step thr (Open k p) w = peerOpen thr k p w"
| "step thr (IncomingCall k p outcome) w = peerCall k p outcome w"
| "step thr (Message l p act outcome) w = channelMessage l p act outcome w"
| "step thr (StreamEv c s) w = callStream c s w"
| "step thr (ErrorEv c) w = callError c w"
| "step thr (CloseEv c) w = callClose c w"
| "step thr (PeerErrorEv k message) w = peerError k message w"
| "step thr (PeerDisconnectedEv k) w = peerDisconnected k w"
| "step thr (ToggleVideo cam) w = toggleVideo cam w"
| "step thr LeaveRoom w = fst (leaveRoom thr w)"

definition run :: "(action \<Rightarrow> bool) \<Rightarrow> event list \<Rightarrow> world \<Rightarrow> world" where
  "run thr evs w = fold (step thr) evs w"


text \<open>
  The calls a \<^verbatim>\<open>try\<close> block issues, as a list: those before the first call that throws, and
  that call.
\<close>

fun tried :: "(action \<Rightarrow> bool) \<Rightarrow> action list \<Rightarrow> action list" where
  "tried thr [] = []"
| "tried thr (a # as) = (if thr a then [a] else a # tried thr as)"

text \<open>
  What \<^verbatim>\<open>leaveRoom\<close> leaves in the registry (it is emptied unless closing a connection
  throws), and the calls \<^verbatim>\<open>leaveRoom\<close> issues, block by block.
\<close>

definition registryAfterLeave :: "(action \<Rightarrow> bool) \<Rightarrow> world \<Rightarrow> (peer_id \<times> conn_id) list" where
  "registryAfterLeave thr w = (if \<exists>a\<in>set (closeCalls w). thr a then connections w else [])"

definition leaveCalls :: "(action \<Rightarrow> bool) \<Rightarrow> world \<Rightarrow> action list" where
  "leaveCalls thr w =
     concat (map (\<lambda>c. tried thr (cleanupCalls c)) (cleanupFunctionsRef w)) @
     tried thr (stopCalls w) @ tried thr (closeCalls w) @ tried thr (peerCalls w) @ [Navigate]"

text \<open>Element \<open>a\<close> occurs in the list, and \<open>b\<close> occurs somewhere after it.\<close>

definition issued_before :: "'a \<Rightarrow> 'a \<Rightarrow> 'a list \<Rightarrow> bool" where
  "issued_before a b xs = (b \<in> set (dropWhile (\<lambda>x. x \<noteq> a) xs) \<and> a \<noteq> b)"


section \<open>Sessions used in the examples\<close>

text \<open>
  Peer \<open>A\<close> starts in room \<open>r1\<close> with microphone \<open>a1\<close> and camera \<open>v1\<close> and comes online
  (\<open>started\<close>). Peer \<open>B\<close> calls; \<open>A\<close> answers, and the call has one sender for each of the
  two tracks (\<open>called_by_B\<close>); then the stream of \<open>B\<close> arrives (\<open>streaming_B\<close>). In
  \<open>failed_start\<close> the camera and microphone are refused instead, which ends the start.

  In \<open>moved_rooms\<close> the room id changes to \<open>r2\<close> after \<open>started\<close>: React calls the cleanup
  function of the first run of the effect and runs the effect again, which acquires
  microphone \<open>a2\<close> and camera \<open>v3\<close> and makes a second peer; that peer comes online as
  \<open>A2\<close>, with listener 1. In \<open>joined_B\<close> that listener has received the \<^verbatim>\<open>join\<close>
  announcement of \<open>B\<close>. Nothing throws.
\<close>

definition nothing_throws :: "action \<Rightarrow> bool" where
  "nothing_throws a = False"

definition microphone_stop_throws :: "action \<Rightarrow> bool" where
  "microphone_stop_throws a = (a = TrackStop ''a1'')"

definition a1 :: track where
  "a1 = \<lparr>track_id = ''a1'', kind = Audio\<rparr>"

definition v1 :: track where
  "v1 = \<lparr>track_id = ''v1'', kind = Video\<rparr>"

definition v2 :: track where
  "v2 = \<lparr>track_id = ''v2'', kind = Video\<rparr>"

definition a2 :: track where
  "a2 = \<lparr>track_id = ''a2'', kind = Audio\<rparr>"

definition v3 :: track where
  "v3 = \<lparr>track_id = ''v3'', kind = Video\<rparr>"

definition remote_B :: media_stream where
  "remote_B = [\<lparr>track_id = ''b1'', kind = Audio\<rparr>]"

definition senders_a1_v1 :: "sender list" where
  "senders_a1_v1 = [\<lparr>sender_track = Some a1\<rparr>, \<lparr>sender_track = Some v1\<rparr>]"

definition session_A :: "event list \<Rightarrow> world" where
  "session_A evs = run nothing_throws evs initial"

definition started :: "event list" where
  "started = [Mount ''r1'' (Inr [a1, v1]) (Inr [a1]), Open 0 ''A'']"

definition called_by_B :: "event list" where
  "called_by_B = started @ [IncomingCall 0 ''B'' (Answered (Some senders_a1_v1))]"

definition streaming_B :: "event list" where
  "streaming_B = called_by_B @ [StreamEv 0 remote_B]"

definition failed_start :: "event list" where
  "failed_start = [Mount ''r1'' (Inl ''NotAllowedError'') (Inr [a1])]"

definition moved_rooms :: "event list" where
  "moved_rooms = started @ [Mount ''r2'' (Inr [a2, v3]) (Inr [a2]), Open 1 ''A2'']"

definition joined_B :: "event list" where
  "joined_B = moved_rooms @ [Message 1 ''B'' ''join'' (CallCreated (Some senders_a1_v1))]"

section \<open>What the handlers leave alone\<close>

lemma log_fields [simp]:
  "remoteStreams (log a w) = remoteStreams w"
  "participantCount (log a w) = participantCount w"
  "connections (log a w) = connections w"
  "calls (log a w) = calls w"
  "localStream (log a w) = localStream w"
  "screenShareStream (log a w) = screenShareStream w"
  "cleanupFunctionsRef (log a w) = cleanupFunctionsRef w"
  "peer (log a w) = peer w"
  "connectionStatus (log a w) = connectionStatus w"
  "listeners (log a w) = listeners w"
  "effects (log a w) = effects w"
  "peers (log a w) = peers w"
  "cleanupOf (log a w) = cleanupOf w"
  "trace (log a w) = trace w @ [a]"
  by (simp_all add: log_def)

text \<open>A \<^verbatim>\<open>try\<close> block of platform calls only extends the trace.\<close>

lemma attempt_closed_form:
  "attempt thr as w = (w\<lparr>trace := trace w @ tried thr as\<rparr>, \<exists>a\<in>set as. thr a)"
  by (induction as arbitrary: w) (simp_all add: log_def)

lemma replaceVideoIn_fields [simp]:
  "remoteStreams (replaceVideoIn P t c w) = remoteStreams w"
  "participantCount (replaceVideoIn P t c w) = participantCount w"
  "connections (replaceVideoIn P t c w) = connections w"
  by (simp_all add: replaceVideoIn_def split: option.splits)

lemma fold_replaceVideoIn_fields [simp]:
  "remoteStreams (fold (replaceVideoIn P t) cs w) = remoteStreams w"
  "participantCount (fold (replaceVideoIn P t) cs w) = participantCount w"
  "connections (fold (replaceVideoIn P t) cs w) = connections w"
  by (induction cs arbitrary: w; simp)+

lemma videoOffTrack_fields [simp]:
  "remoteStreams (videoOffTrack tr w) = remoteStreams w"
  "participantCount (videoOffTrack tr w) = participantCount w"
  "connections (videoOffTrack tr w) = connections w"
  by (simp_all add: videoOffTrack_def Let_def)

lemma fold_videoOffTrack_fields [simp]:
  "remoteStreams (fold videoOffTrack ts w) = remoteStreams w"
  "participantCount (fold videoOffTrack ts w) = participantCount w"
  "connections (fold videoOffTrack ts w) = connections w"
  by (induction ts arbitrary: w; simp)+

lemma toggleVideo_fields [simp]:
  "remoteStreams (toggleVideo cam w) = remoteStreams w"
  "participantCount (toggleVideo cam w) = participantCount w"
  "connections (toggleVideo cam w) = connections w"
  by (simp_all add: toggleVideo_def turnedOn_def Let_def
        split: option.splits camera_outcome.splits list.splits)

text \<open>\<^verbatim>\<open>leaveRoom\<close> in closed form: what it writes, and the calls it issues, block by block.\<close>

lemma runCleanups_closed_form:
  "runCleanups thr w =
     w\<lparr>cleanupFunctionsRef := [],
       listeners := fold (unsubscribe thr) (cleanupFunctionsRef w) (listeners w),
       trace := trace w @ concat (map (\<lambda>c. tried thr (cleanupCalls c)) (cleanupFunctionsRef w))\<rparr>"
proof -
  have "fold (runCleanup thr) cs v =
          v\<lparr>listeners := fold (unsubscribe thr) cs (listeners v),
            trace := trace v @ concat (map (\<lambda>c. tried thr (cleanupCalls c)) cs)\<rparr>" for cs v
    by (induction cs arbitrary: v) (simp_all add: runCleanup_def attempt_closed_form)
  then show ?thesis
    by (simp add: runCleanups_def)
qed

lemma leaveRoom_closed_form:
  "leaveRoom thr w =
     (w\<lparr>cleanupFunctionsRef := [], connections := registryAfterLeave thr w,
        listeners := fold (unsubscribe thr) (cleanupFunctionsRef w) (listeners w),
        trace := trace w @ leaveCalls thr w\<rparr>,
      thr Navigate)"
  by (simp add: leaveRoom_def runCleanups_closed_form stopMediaTracks_def closeConnections_def
        disconnectPeer_def attempt_closed_form stopCalls_def closeCalls_def peerCalls_def
        registryAfterLeave_def leaveCalls_def log_def)

lemma leaveRoom_fields [simp]:
  "remoteStreams (fst (leaveRoom thr w)) = remoteStreams w"
  "participantCount (fst (leaveRoom thr w)) = participantCount w"
  by (simp_all add: leaveRoom_closed_form)

lemma videoRoomEffect_fields [simp]:
  "remoteStreams (videoRoomEffect thr room f s w) = remoteStreams w"
  "participantCount (videoRoomEffect thr room f s w) = participantCount w"
  "connections (videoRoomEffect thr room f s w) = connections w"
  by (simp_all add: videoRoomEffect_def initPeer_def acquireMedia_def failedToInitialize_def
        setLocalStream_def Let_def split: sum.splits)

lemma reactCleanup_fields [simp]:
  "remoteStreams (fst (reactCleanup thr w)) = remoteStreams w"
  "participantCount (fst (reactCleanup thr w)) = participantCount w"
  "connections (fst (reactCleanup thr w)) = connections w"
  by (simp_all add: reactCleanup_def effectCleanup_def runCleanups_closed_form
        attempt_closed_form Let_def split: option.splits)

lemma runEffect_fields [simp]:
  "remoteStreams (runEffect thr room f s w) = remoteStreams w"
  "participantCount (runEffect thr room f s w) = participantCount w"
  "connections (runEffect thr room f s w) = connections w"
proof -
  obtain w1 b where r: "reactCleanup thr w = (w1, b)"
    by fastforce
  then have "remoteStreams w1 = remoteStreams w" "participantCount w1 = participantCount w"
    "connections w1 = connections w"
    using reactCleanup_fields [of thr w] by simp_all
  then show "remoteStreams (runEffect thr room f s w) = remoteStreams w"
    and "participantCount (runEffect thr room f s w) = participantCount w"
    and "connections (runEffect thr room f s w) = connections w"
    using r by (cases b; simp add: runEffect_def)+
qed

lemma onOpen_fields [simp]:
  "remoteStreams (onOpen thr e p w) = remoteStreams w"
  "participantCount (onOpen thr e p w) = participantCount w"
  "connections (onOpen thr e p w) = connections w"
  by (simp_all add: onOpen_def listenForPeersInRoom_def announcePeerInRoom_def
        attempt_closed_form Let_def)

lemma peerOpen_fields [simp]:
  "remoteStreams (peerOpen thr k p w) = remoteStreams w"
  "participantCount (peerOpen thr k p w) = participantCount w"
  "connections (peerOpen thr k p w) = connections w"
  by (simp_all add: peerOpen_def)

lemma onCall_fields [simp]:
  "remoteStreams (onCall p out w) = remoteStreams w"
  "participantCount (onCall p out w) = participantCount w"
  by (simp_all add: onCall_def Let_def split: answer_outcome.splits)

lemma messageHandler_fields [simp]:
  "remoteStreams (messageHandler me ls p act out w) = remoteStreams w"
  "participantCount (messageHandler me ls p act out w) = participantCount w"
  by (simp_all add: messageHandler_def Let_def split: option.splits call_outcome.splits)

lemma peerCall_fields [simp]:
  "remoteStreams (peerCall k p out w) = remoteStreams w"
  "participantCount (peerCall k p out w) = participantCount w"
  by (simp_all add: peerCall_def)

lemma channelMessage_fields [simp]:
  "remoteStreams (channelMessage l p act out w) = remoteStreams w"
  "participantCount (channelMessage l p act out w) = participantCount w"
  by (simp_all add: channelMessage_def Let_def)

lemma peer_events_fields [simp]:
  "remoteStreams (onPeerError m w) = remoteStreams w"
  "participantCount (onPeerError m w) = participantCount w"
  "connections (onPeerError m w) = connections w"
  "remoteStreams (onDisconnected w) = remoteStreams w"
  "participantCount (onDisconnected w) = participantCount w"
  "connections (onDisconnected w) = connections w"
  "remoteStreams (peerError k m w) = remoteStreams w"
  "participantCount (peerError k m w) = participantCount w"
  "connections (peerError k m w) = connections w"
  "remoteStreams (peerDisconnected k w) = remoteStreams w"
  "participantCount (peerDisconnected k w) = participantCount w"
  "connections (peerDisconnected k w) = connections w"
  by (simp_all add: onPeerError_def onDisconnected_def peerError_def peerDisconnected_def)


section \<open>Participant count and remote streams\<close>

lemma find_stream_id_None:
  "find (\<lambda>s. stream_id s = p) xs = None \<longleftrightarrow> p \<notin> stream_id ` set xs"
  by (auto simp: find_None_iff)

lemma onStream_distinct:
  "distinct (map stream_id (remoteStreams w)) \<Longrightarrow>
   distinct (map stream_id (remoteStreams (onStream name p rs w)))"
  by (simp add: onStream_def find_stream_id_None)

lemma step_distinct:
  "distinct (map stream_id (remoteStreams w)) \<Longrightarrow>
   distinct (map stream_id (remoteStreams (step thr ev w)))"
  by (cases ev)
     (simp_all add: callStream_def callError_def callClose_def onCallError_def
        onCloseIncoming_def onCloseOutgoing_def onStream_distinct distinct_map_filter Let_def)

lemma step_count:
  "1 \<le> participantCount w \<Longrightarrow> 1 \<le> participantCount (step thr ev w)"
  by (cases ev)
     (simp_all add: callStream_def callError_def callClose_def onCallError_def
        onCloseIncoming_def onCloseOutgoing_def onStream_def Let_def)

lemma run_distinct:
  "distinct (map stream_id (remoteStreams w)) \<Longrightarrow>
   distinct (map stream_id (remoteStreams (run thr evs w)))"
  unfolding run_def by (induction evs arbitrary: w) (simp_all add: step_distinct)

lemma run_count:
  "1 \<le> participantCount w \<Longrightarrow> 1 \<le> participantCount (run thr evs w)"
  unfolding run_def by (induction evs arbitrary: w) (simp_all add: step_count)

lemma run_append: "run thr (xs @ ys) w = run thr ys (run thr xs w)"
  by (simp add: run_def)

text \<open>
  Claim C6. The participant count is at least 1 in every state the component reaches from
  its state on mount, whatever events arrive and in whatever order: stream arrivals, close
  events (also repeated ones, and ones for a peer that was already removed), and every
  other event of the model.
\<close>

theorem participantCount_at_least_one:
  "1 \<le> participantCount (run thr evs initial)"
  by (rule run_count) (simp add: initial_def)


lemmas handler_defs =
  runEffect_def reactCleanup_def effectCleanup_def heldCalls_def runCleanups_def runCleanup_def
  unsubscribe_def held_def heldBy_def capture_def detach_def setLocalStream_def
  peerOpen_def peerCall_def peerError_def peerDisconnected_def channelMessage_def getTracks_def
  videoRoomEffect_def initPeer_def acquireMedia_def failedToInitialize_def onOpen_def
  listenForPeersInRoom_def announcePeerInRoom_def onCall_def messageHandler_def
  callStream_def callError_def callClose_def onStream_def onCloseIncoming_def
  onCloseOutgoing_def onCallError_def onPeerError_def onDisconnected_def log_def

lemma started_state:
  "session_A started =
     \<lparr> peer = True, localStream = Some [a1, v1], remoteStreams = [], screenShareStream = None,
       isAudioEnabled = True, isVideoEnabled = True, isVideoLoading = False,
       isScreenSharing = False, isAnnotating = False, participantCount = 1,
       connectionStatus = Connected, errorMessage = [],
       cleanupFunctionsRef = [CleanupListener 0, CleanupAnnouncer],
       connections = [], calls = [],
       effects = [\<lparr>heldLocalStream = HeldNull, heldScreenShareStream = None, heldPeer = False\<rparr>],
       cleanupOf = Some 0, peers = [0],
       listeners = [\<lparr>listenerPeerId = ''A'', listenerEffect = 0, channelOpen = True\<rparr>],
       trace = [GetUserMedia True True, NewPeer, NewChannel ListenerChannel,
                NewChannel AnnouncerChannel, PostMessage ''A'', SetInterval] \<rparr>"
  by (simp add: session_A_def started_def nothing_throws_def run_def initial_def handler_defs
        Let_def)

lemma called_by_B_state:
  "session_A called_by_B =
     \<lparr> peer = True, localStream = Some [a1, v1], remoteStreams = [], screenShareStream = None,
       isAudioEnabled = True, isVideoEnabled = True, isVideoLoading = False,
       isScreenSharing = False, isAnnotating = False, participantCount = 1,
       connectionStatus = Connected, errorMessage = [],
       cleanupFunctionsRef = [CleanupListener 0, CleanupAnnouncer],
       connections = [(''B'', 0)],
       calls = [\<lparr>call_peer = ''B'', incoming = True, peerConnection = Some senders_a1_v1\<rparr>],
       effects = [\<lparr>heldLocalStream = HeldNull, heldScreenShareStream = None, heldPeer = False\<rparr>],
       cleanupOf = Some 0, peers = [0],
       listeners = [\<lparr>listenerPeerId = ''A'', listenerEffect = 0, channelOpen = True\<rparr>],
       trace = [GetUserMedia True True, NewPeer, NewChannel ListenerChannel,
                NewChannel AnnouncerChannel, PostMessage ''A'', SetInterval, CallAnswer ''B''] \<rparr>"
proof -
  have "session_A called_by_B =
          peerCall 0 ''B'' (Answered (Some senders_a1_v1)) (session_A started)"
    by (simp add: session_A_def called_by_B_def run_append) (simp add: run_def)
  then show ?thesis
    by (simp add: started_state peerCall_def onCall_def log_def Let_def)
qed

lemma streaming_B_state:
  "session_A streaming_B =
     \<lparr> peer = True, localStream = Some [a1, v1],
       remoteStreams = [\<lparr>stream_id = ''B'', stream = remote_B, userName = Some ''Participant'',
                         isScreenShare = None, connectionQuality = Some Good\<rparr>],
       screenShareStream = None,
       isAudioEnabled = True, isVideoEnabled = True, isVideoLoading = False,
       isScreenSharing = False, isAnnotating = False, participantCount = 2,
       connectionStatus = Connected, errorMessage = [],
       cleanupFunctionsRef = [CleanupListener 0, CleanupAnnouncer],
       connections = [(''B'', 0)],
       calls = [\<lparr>call_peer = ''B'', incoming = True, peerConnection = Some senders_a1_v1\<rparr>],
       effects = [\<lparr>heldLocalStream = HeldNull, heldScreenShareStream = None, heldPeer = False\<rparr>],
       cleanupOf = Some 0, peers = [0],
       listeners = [\<lparr>listenerPeerId = ''A'', listenerEffect = 0, channelOpen = True\<rparr>],
       trace = [GetUserMedia True True, NewPeer, NewChannel ListenerChannel,
                NewChannel AnnouncerChannel, PostMessage ''A'', SetInterval, CallAnswer ''B''] \<rparr>"
proof -
  have "session_A streaming_B = callStream 0 remote_B (session_A called_by_B)"
    by (simp add: session_A_def streaming_B_def run_append) (simp add: run_def)
  then show ?thesis
    by (simp add: called_by_B_state callStream_def onStream_def Let_def)
qed

theorem participantCount_at_least_one_witness:
  "1 \<le> participantCount (session_A (streaming_B @ [CloseEv 0, CloseEv 0, CloseEv 5]))"
  using participantCount_at_least_one
          [of nothing_throws "streaming_B @ [CloseEv 0, CloseEv 0, CloseEv 5]"]
  by (simp add: session_A_def)

text \<open>
  Claim C10. The list of remote streams never holds two entries with the same peer id, in
  any state reached from the state on mount. The \<^verbatim>\<open>stream\<close> handler, shared in shape by
  inbound and outbound calls, leaves the list as it is when it finds an entry with the
  peer id and appends one entry with that id otherwise, and both \<^verbatim>\<open>close\<close> handlers keep
  exactly the entries with another peer id.
\<close>

theorem remoteStreams_unique:
  "distinct (map stream_id (remoteStreams (run thr evs initial))) \<and>
   (find (\<lambda>s. stream_id s = p) (remoteStreams w) \<noteq> None \<longrightarrow>
      remoteStreams (onStream name p rs w) = remoteStreams w) \<and>
   (find (\<lambda>s. stream_id s = p) (remoteStreams w) = None \<longrightarrow>
      remoteStreams (onStream name p rs w) =
        remoteStreams w @ [\<lparr>stream_id = p, stream = rs, userName = Some name,
                            isScreenShare = None, connectionQuality = Some Good\<rparr>]) \<and>
   remoteStreams (onCloseIncoming p w) = filter (\<lambda>s. stream_id s \<noteq> p) (remoteStreams w) \<and>
   remoteStreams (onCloseOutgoing p w) = filter (\<lambda>s. stream_id s \<noteq> p) (remoteStreams w)"
proof -
  have "distinct (map stream_id (remoteStreams (run thr evs initial)))"
    by (rule run_distinct) (simp add: initial_def)
  moreover have "find (\<lambda>s. stream_id s = p) (remoteStreams w) \<noteq> None \<longrightarrow>
      remoteStreams (onStream name p rs w) = remoteStreams w"
    by (simp add: onStream_def)
  moreover have "find (\<lambda>s. stream_id s = p) (remoteStreams w) = None \<longrightarrow>
      remoteStreams (onStream name p rs w) =
        remoteStreams w @ [\<lparr>stream_id = p, stream = rs, userName = Some name,
                            isScreenShare = None, connectionQuality = Some Good\<rparr>]"
    by (simp add: onStream_def)
  moreover have
    "remoteStreams (onCloseIncoming p w) = filter (\<lambda>s. stream_id s \<noteq> p) (remoteStreams w)"
    by (simp add: onCloseIncoming_def)
  moreover have
    "remoteStreams (onCloseOutgoing p w) = filter (\<lambda>s. stream_id s \<noteq> p) (remoteStreams w)"
    by (simp add: onCloseOutgoing_def)
  ultimately show ?thesis by blast
qed

theorem remoteStreams_unique_witness:
  "distinct (map stream_id
     (remoteStreams (session_A (streaming_B @ [IncomingCall 0 ''B'' (Answered None), StreamEv 1 remote_B])))) \<and>
   find (\<lambda>s. stream_id s = ''B'') (remoteStreams (session_A streaming_B)) \<noteq> None \<and>
   remoteStreams (onStream ''Participant'' ''B'' remote_B (session_A streaming_B)) =
     remoteStreams (session_A streaming_B) \<and>
   find (\<lambda>s. stream_id s = ''C'') (remoteStreams (session_A streaming_B)) = None \<and>
   remoteStreams (onStream ''Participant'' ''C'' [] (session_A streaming_B)) =
     remoteStreams (session_A streaming_B) @
       [\<lparr>stream_id = ''C'', stream = [], userName = Some ''Participant'',
         isScreenShare = None, connectionQuality = Some Good\<rparr>] \<and>
   remoteStreams (onCloseIncoming ''C'' (session_A streaming_B)) =
     remoteStreams (session_A streaming_B) \<and>
   remoteStreams (onCloseIncoming ''B'' (session_A streaming_B)) = []"
proof -
  have found: "find (\<lambda>s. stream_id s = ''B'') (remoteStreams (session_A streaming_B)) \<noteq> None"
    and missing: "find (\<lambda>s. stream_id s = ''C'') (remoteStreams (session_A streaming_B)) = None"
    by (simp_all add: streaming_B_state)
  have kept: "filter (\<lambda>s. stream_id s \<noteq> ''C'') (remoteStreams (session_A streaming_B)) =
      remoteStreams (session_A streaming_B)"
    and dropped: "filter (\<lambda>s. stream_id s \<noteq> ''B'') (remoteStreams (session_A streaming_B)) = []"
    by (simp_all add: streaming_B_state)
  show ?thesis
    using found missing kept dropped
      remoteStreams_unique [where thr = nothing_throws
        and evs = "streaming_B @ [IncomingCall 0 ''B'' (Answered None), StreamEv 1 remote_B]"
        and p = "''B''" and w = "session_A streaming_B" and name = "''Participant''"
        and rs = remote_B]
      remoteStreams_unique [where thr = nothing_throws and evs = "[]"
        and p = "''C''" and w = "session_A streaming_B" and name = "''Participant''"
        and rs = "[]"]
    by (simp add: session_A_def)
qed


section \<open>The connection registry\<close>

lemma map_of_assign_same: "map_of (assign k v kvs) k = Some v"
  by (induction kvs) auto

lemma map_of_assign_other: "k' \<noteq> k \<Longrightarrow> map_of (assign k v kvs) k' = map_of kvs k'"
  by (induction kvs) auto

lemma keys_assign: "fst ` set (assign k v kvs) = insert k (fst ` set kvs)"
  by (induction kvs) (force split: if_splits)+

lemma distinct_assign:
  "distinct (map fst kvs) \<Longrightarrow> distinct (map fst (assign k v kvs))"
proof (induction kvs)
  case Nil
  then show ?case by simp
next
  case (Cons kv kvs)
  obtain k' v' where kv: "kv = (k', v')" by (cases kv)
  show ?case
  proof (cases "k' = k")
    case True
    with Cons.prems kv show ?thesis by simp
  next
    case False
    with Cons kv show ?thesis by (simp add: keys_assign)
  qed
qed

lemma map_of_delete_same: "map_of (delete k kvs) k = None"
  by (induction kvs) (auto simp: delete_def)

lemma map_of_delete_other: "k' \<noteq> k \<Longrightarrow> map_of (delete k kvs) k' = map_of kvs k'"
  by (induction kvs) (auto simp: delete_def)

lemma distinct_delete: "distinct (map fst kvs) \<Longrightarrow> distinct (map fst (delete k kvs))"
  by (simp add: delete_def distinct_map_filter)

lemma channelMessage_registry:
  "distinct (map fst (connections w)) \<Longrightarrow>
   distinct (map fst (connections (channelMessage l p act out w)))"
  by (simp add: channelMessage_def messageHandler_def Let_def distinct_assign
        split: option.splits call_outcome.splits)

lemma step_registry:
  assumes "distinct (map fst (connections w))"
  shows "distinct (map fst (connections (step thr ev w)))"
proof (cases ev)
  case (IncomingCall k p outcome)
  with assms show ?thesis
    by (simp add: peerCall_def onCall_def Let_def distinct_assign split: answer_outcome.splits)
next
  case (Message l p act outcome)
  with assms show ?thesis
    by (simp add: channelMessage_registry)
next
  case (CloseEv c)
  with assms show ?thesis
    by (simp add: callClose_def onCloseIncoming_def onCloseOutgoing_def Let_def distinct_delete)
next
  case LeaveRoom
  with assms show ?thesis
    by (simp add: leaveRoom_closed_form registryAfterLeave_def)
qed (use assms in \<open>simp_all add: callStream_def callError_def onCallError_def onStream_def Let_def\<close>)

lemma run_registry:
  "distinct (map fst (connections w)) \<Longrightarrow>
   distinct (map fst (connections (run thr evs w)))"
  unfolding run_def by (induction evs arbitrary: w) (simp_all add: step_registry)

lemma moved_rooms_state:
  "session_A moved_rooms =
     \<lparr> peer = True, localStream = Some [a2, v3], remoteStreams = [], screenShareStream = None,
       isAudioEnabled = True, isVideoEnabled = True, isVideoLoading = False,
       isScreenSharing = False, isAnnotating = False, participantCount = 1,
       connectionStatus = Connected, errorMessage = [],
       cleanupFunctionsRef = [CleanupListener 1, CleanupAnnouncer],
       connections = [], calls = [],
       effects = [\<lparr>heldLocalStream = HeldNull, heldScreenShareStream = None, heldPeer = False\<rparr>,
                  \<lparr>heldLocalStream = HeldDetached [a1, v1], heldScreenShareStream = None,
                    heldPeer = True\<rparr>],
       cleanupOf = Some 1, peers = [0, 1],
       listeners = [\<lparr>listenerPeerId = ''A'', listenerEffect = 0, channelOpen = False\<rparr>,
                    \<lparr>listenerPeerId = ''A2'', listenerEffect = 1, channelOpen = True\<rparr>],
       trace = [GetUserMedia True True, NewPeer, NewChannel ListenerChannel,
                NewChannel AnnouncerChannel, PostMessage ''A'', SetInterval,
                ChannelClose ListenerChannel, ClearInterval, ChannelClose AnnouncerChannel,
                GetUserMedia True True, NewPeer, NewChannel ListenerChannel,
                NewChannel AnnouncerChannel, PostMessage ''A2'', SetInterval] \<rparr>"
proof -
  have "session_A moved_rooms =
          peerOpen nothing_throws 1 ''A2''
            (runEffect nothing_throws ''r2'' (Inr [a2, v3]) (Inr [a2]) (session_A started))"
    by (simp add: session_A_def moved_rooms_def run_append) (simp add: run_def)
  then show ?thesis
    by (simp add: started_state nothing_throws_def handler_defs tried.simps Let_def)
qed

lemma joined_B_state:
  "session_A joined_B =
     (session_A moved_rooms)
       \<lparr>connections := [(''B'', 0)],
        calls := [\<lparr>call_peer = ''B'', incoming = False, peerConnection = Some senders_a1_v1\<rparr>],
        trace := trace (session_A moved_rooms) @ [PeerCall ''B'']\<rparr>"
proof -
  have "session_A joined_B =
          channelMessage 1 ''B'' ''join'' (CallCreated (Some senders_a1_v1)) (session_A moved_rooms)"
    by (simp add: session_A_def joined_B_def run_append) (simp add: run_def)
  then show ?thesis
    by (simp add: moved_rooms_state channelMessage_def heldBy_def held_def messageHandler_def
          log_def Let_def)
qed

text \<open>
  The listener made by the first run of the effect reads the \<^verbatim>\<open>localStream\<close> of the first
  render, which is \<^verbatim>\<open>null\<close>: a \<^verbatim>\<open>join\<close> announcement changes nothing there.
\<close>

lemma listener_of_first_run_does_not_dial:
  "session_A (started @ [Message 0 ''B'' ''join'' out]) = session_A started"
proof -
  have "session_A (started @ [Message 0 ''B'' ''join'' out]) =
          channelMessage 0 ''B'' ''join'' out (session_A started)"
    by (simp add: session_A_def run_append) (simp add: run_def)
  then show ?thesis
    by (simp add: started_state channelMessage_def heldBy_def held_def messageHandler_def)
qed

text \<open>
  Claim C1, as amended. The handler never looks into the registry. A message with the
  listener's own peer id changes nothing. A \<^verbatim>\<open>join\<close> message of another peer for which the
  handler's test of \<^verbatim>\<open>localStream\<close> passes originates a call to that peer, whether or not
  the registry already has a connection for it; a connection that the transport returns is
  stored under the peer id, in place of an entry that was there. A message with another
  action, or one for which the test does not pass, changes nothing. The same holds of a
  message delivered to a listener with an open channel, for the \<^verbatim>\<open>localStream\<close> of the
  listener's run of the effect.
\<close>

theorem listener_dials_on_every_join:
  "(p = me \<longrightarrow> messageHandler me ls p act out w = w) \<and>
   (p \<noteq> me \<and> act = ''join'' \<and> ls = Some s \<longrightarrow>
      trace (messageHandler me ls p act out w) = trace w @ [PeerCall p]) \<and>
   (p \<noteq> me \<and> act = ''join'' \<and> ls = Some s \<and> out = CallCreated pc \<longrightarrow>
      map_of (connections (messageHandler me ls p act out w)) p = Some (length (calls w)) \<and>
      calls (messageHandler me ls p act out w) =
        calls w @ [\<lparr>call_peer = p, incoming = False, peerConnection = pc\<rparr>]) \<and>
   (act \<noteq> ''join'' \<or> ls = None \<longrightarrow> messageHandler me ls p act out w = w) \<and>
   (l < length (listeners w) \<and> channelOpen (listeners w ! l) \<and>
    p \<noteq> listenerPeerId (listeners w ! l) \<and>
    heldBy w (listenerEffect (listeners w ! l)) = Some s \<longrightarrow>
      trace (step thr (Message l p ''join'' out) w) = trace w @ [PeerCall p])"
  by (auto simp: channelMessage_def messageHandler_def Let_def map_of_assign_same
        split: call_outcome.splits)

theorem listener_dials_on_every_join_witness:
  "messageHandler ''A2'' (Some [a1, v1]) ''A2'' ''join'' (CallCreated None) (session_A joined_B) =
     session_A joined_B \<and>
   trace (messageHandler ''A2'' (Some [a1, v1]) ''B'' ''join'' (CallCreated None)
            (session_A joined_B)) =
     trace (session_A joined_B) @ [PeerCall ''B''] \<and>
   map_of (connections (messageHandler ''A2'' (Some [a1, v1]) ''B'' ''join'' (CallCreated None)
            (session_A joined_B))) ''B'' = Some (length (calls (session_A joined_B))) \<and>
   messageHandler ''A2'' None ''B'' ''join'' (CallCreated None) (session_A joined_B) =
     session_A joined_B \<and>
   heldBy (session_A joined_B) (listenerEffect (listeners (session_A joined_B) ! 1)) =
     Some [a1, v1] \<and>
   trace (step nothing_throws (Message 1 ''B'' ''join'' (CallCreated None)) (session_A joined_B)) =
     trace (session_A joined_B) @ [PeerCall ''B'']"
proof -
  have pre: "1 < length (listeners (session_A joined_B))"
    "channelOpen (listeners (session_A joined_B) ! 1)"
    "''B'' \<noteq> listenerPeerId (listeners (session_A joined_B) ! 1)"
    "heldBy (session_A joined_B) (listenerEffect (listeners (session_A joined_B) ! 1)) =
       Some [a1, v1]"
    by (simp_all add: joined_B_state moved_rooms_state heldBy_def held_def)
  show ?thesis
    using pre
      listener_dials_on_every_join [where p = "''A2''" and me = "''A2''"
        and ls = "Some [a1, v1]" and act = "''join''" and out = "CallCreated None"
        and w = "session_A joined_B"]
      listener_dials_on_every_join [where p = "''B''" and me = "''A2''"
        and ls = "Some [a1, v1]" and act = "''join''" and s = "[a1, v1]"
        and out = "CallCreated None" and pc = None and w = "session_A joined_B"
        and l = 1 and thr = nothing_throws]
      listener_dials_on_every_join [where p = "''B''" and me = "''A2''" and ls = None
        and act = "''join''" and out = "CallCreated None" and w = "session_A joined_B"]
    by simp
qed

text \<open>
  Claim C1 as stated fails. After the room id changed and the effect ran again, listener 1
  has dialled \<open>B\<close> on its \<^verbatim>\<open>join\<close> announcement, and the registry holds connection 0 for
  \<open>B\<close>. The next \<^verbatim>\<open>join\<close> announcement of \<open>B\<close> originates another call to \<open>B\<close>, and the
  registry then holds the new connection 1 for \<open>B\<close>.
\<close>

theorem repeated_join_dials_again:
  "map_of (connections (session_A joined_B)) ''B'' = Some 0 \<and>
   trace (session_A (joined_B @ [Message 1 ''B'' ''join'' (CallCreated (Some senders_a1_v1))])) =
     trace (session_A joined_B) @ [PeerCall ''B''] \<and>
   map_of (connections
     (session_A (joined_B @ [Message 1 ''B'' ''join'' (CallCreated (Some senders_a1_v1))]))) ''B'' =
     Some 1"
proof -
  have "session_A (joined_B @ [Message 1 ''B'' ''join'' (CallCreated (Some senders_a1_v1))]) =
        channelMessage 1 ''B'' ''join'' (CallCreated (Some senders_a1_v1)) (session_A joined_B)"
    by (simp add: session_A_def run_append) (simp add: run_def)
  then show ?thesis
    by (simp add: joined_B_state moved_rooms_state channelMessage_def heldBy_def held_def
          messageHandler_def log_def Let_def)
qed

text \<open>
  Claim C2, as amended. The registry is keyed by the remote peer id and holds at most one
  entry per peer id in every reachable state. Registering a connection for a peer id,
  inbound or outbound, stores that connection under the peer id, in place of an entry that
  was there, and closes nothing: the calls issued are \<^verbatim>\<open>call.answer\<close> and \<^verbatim>\<open>peer.call\<close> only.
  A \<^verbatim>\<open>stream\<close> event for a peer id that already has a remote stream changes nothing, so
  the first stream to arrive is the one kept and the participant count stays.
\<close>

theorem registry_keeps_latest_connection:
  "distinct (map fst (connections (run thr evs initial))) \<and>
   map_of (connections (onCall p (Answered pc) w)) p = Some (length (calls w)) \<and>
   trace (onCall p (Answered pc) w) = trace w @ [CallAnswer p] \<and>
   (p \<noteq> me \<longrightarrow>
      map_of (connections (messageHandler me (Some s) p ''join'' (CallCreated pc) w)) p =
        Some (length (calls w)) \<and>
      trace (messageHandler me (Some s) p ''join'' (CallCreated pc) w) = trace w @ [PeerCall p]) \<and>
   (c < length (calls w) \<and> call_peer (calls w ! c) \<in> stream_id ` set (remoteStreams w) \<longrightarrow>
      callStream c rs w = w)"
proof -
  have "distinct (map fst (connections (run thr evs initial)))"
    by (rule run_registry) (simp add: initial_def)
  moreover have "map_of (connections (onCall p (Answered pc) w)) p = Some (length (calls w))"
    and "trace (onCall p (Answered pc) w) = trace w @ [CallAnswer p]"
    by (simp_all add: onCall_def Let_def map_of_assign_same)
  moreover have "p \<noteq> me \<longrightarrow>
      map_of (connections (messageHandler me (Some s) p ''join'' (CallCreated pc) w)) p =
        Some (length (calls w)) \<and>
      trace (messageHandler me (Some s) p ''join'' (CallCreated pc) w) = trace w @ [PeerCall p]"
    by (simp add: messageHandler_def Let_def map_of_assign_same)
  moreover have "c < length (calls w) \<and>
      call_peer (calls w ! c) \<in> stream_id ` set (remoteStreams w) \<longrightarrow> callStream c rs w = w"
    by (simp add: callStream_def onStream_def Let_def find_stream_id_None)
  ultimately show ?thesis by blast
qed

theorem registry_keeps_latest_connection_witness:
  "distinct (map fst (connections
     (session_A (streaming_B @ [IncomingCall 0 ''B'' (Answered None)])))) \<and>
   map_of (connections (onCall ''B'' (Answered None) (session_A streaming_B))) ''B'' = Some 1 \<and>
   trace (onCall ''B'' (Answered None) (session_A streaming_B)) =
     trace (session_A streaming_B) @ [CallAnswer ''B''] \<and>
   map_of (connections (messageHandler ''A2'' (Some [a1, v1]) ''B'' ''join'' (CallCreated None)
     (session_A joined_B))) ''B'' = Some 1 \<and>
   trace (messageHandler ''A2'' (Some [a1, v1]) ''B'' ''join'' (CallCreated None)
     (session_A joined_B)) = trace (session_A joined_B) @ [PeerCall ''B''] \<and>
   callStream 0 [] (session_A streaming_B) = session_A streaming_B"
proof -
  have pre: "0 < length (calls (session_A streaming_B))"
    "call_peer (calls (session_A streaming_B) ! 0) \<in>
       stream_id ` set (remoteStreams (session_A streaming_B))"
    "length (calls (session_A streaming_B)) = 1"
    by (simp_all add: streaming_B_state)
  have out: "length (calls (session_A joined_B)) = 1"
    by (simp add: joined_B_state)
  show ?thesis
    using pre out
      registry_keeps_latest_connection [where thr = nothing_throws and me = "''A''"
        and evs = "streaming_B @ [IncomingCall 0 ''B'' (Answered None)]"
        and p = "''B''" and pc = None and w = "session_A streaming_B" and s = "[a1, v1]"
        and c = 0 and rs = "[]"]
      registry_keeps_latest_connection [where thr = nothing_throws and me = "''A2''"
        and evs = "[]" and p = "''B''" and pc = None and w = "session_A joined_B"
        and s = "[a1, v1]" and c = 7 and rs = "[]"]
    by (simp add: session_A_def)
qed

text \<open>
  Claim C2 as stated fails: \<open>A\<close> has answered a call of \<open>B\<close>, connection 0, which has
  received its stream; a second call of \<open>B\<close> then becomes connection 1, takes the registry
  entry of \<open>B\<close>, and is answered, not closed. When connection 1 closes, the participant
  count drops to 1 although connection 0 was never closed.
\<close>

theorem second_connection_replaces_first:
  "connections (session_A streaming_B) = [(''B'', 0)] \<and>
   connections (session_A (streaming_B @ [IncomingCall 0 ''B'' (Answered None)])) = [(''B'', 1)] \<and>
   trace (session_A (streaming_B @ [IncomingCall 0 ''B'' (Answered None)])) =
     trace (session_A streaming_B) @ [CallAnswer ''B''] \<and>
   participantCount (session_A (streaming_B @ [IncomingCall 0 ''B'' (Answered None)])) = 2 \<and>
   participantCount (session_A (streaming_B @ [IncomingCall 0 ''B'' (Answered None), CloseEv 1])) = 1"
proof -
  have "session_A (streaming_B @ [IncomingCall 0 ''B'' (Answered None)]) =
        peerCall 0 ''B'' (Answered None) (session_A streaming_B)"
    and "session_A (streaming_B @ [IncomingCall 0 ''B'' (Answered None), CloseEv 1]) =
        callClose 1 (peerCall 0 ''B'' (Answered None) (session_A streaming_B))"
    by (simp_all add: session_A_def run_append) (simp_all add: run_def)
  then show ?thesis
    by (simp add: streaming_B_state peerCall_def onCall_def callClose_def onCloseIncoming_def
          log_def Let_def)
qed

text \<open>
  Claim C8, as amended. An \<^verbatim>\<open>error\<close> event on a connection, inbound or outbound, changes no
  state. A \<^verbatim>\<open>close\<close> event on an outbound connection removes the registry entry of its peer
  id and leaves the entries of every other peer id as they are. A \<^verbatim>\<open>close\<close> event on a
  connection of either direction removes the remote streams of its peer id only, writes
  max(1, count - 1) to the participant count, and changes no connection object.
\<close>

theorem close_and_error_events:
  "callError c w = w \<and>
   (c < length (calls w) \<and> \<not> incoming (calls w ! c) \<longrightarrow>
      map_of (connections (callClose c w)) (call_peer (calls w ! c)) = None \<and>
      (\<forall>q. q \<noteq> call_peer (calls w ! c) \<longrightarrow>
         map_of (connections (callClose c w)) q = map_of (connections w) q)) \<and>
   (c < length (calls w) \<longrightarrow>
      participantCount (callClose c w) = max 1 (participantCount w - 1) \<and>
      remoteStreams (callClose c w) =
        filter (\<lambda>s. stream_id s \<noteq> call_peer (calls w ! c)) (remoteStreams w) \<and>
      calls (callClose c w) = calls w)"
  by (simp add: callError_def onCallError_def callClose_def onCloseIncoming_def
        onCloseOutgoing_def Let_def map_of_delete_same map_of_delete_other)

theorem close_and_error_events_witness:
  "callError 0 (session_A streaming_B) = session_A streaming_B \<and>
   \<not> incoming (calls (session_A joined_B) ! 0) \<and>
   map_of (connections (session_A joined_B)) ''B'' = Some 0 \<and>
   map_of (connections (callClose 0 (session_A joined_B))) ''B'' = None \<and>
   participantCount (callClose 0 (session_A streaming_B)) = 1 \<and>
   remoteStreams (callClose 0 (session_A streaming_B)) = [] \<and>
   calls (callClose 0 (session_A streaming_B)) = calls (session_A streaming_B)"
proof -
  have pre: "0 < length (calls (session_A streaming_B))"
    "call_peer (calls (session_A streaming_B) ! 0) = ''B''"
    "participantCount (session_A streaming_B) = 2"
    "remoteStreams (session_A streaming_B) =
       [\<lparr>stream_id = ''B'', stream = remote_B, userName = Some ''Participant'',
         isScreenShare = None, connectionQuality = Some Good\<rparr>]"
    by (simp_all add: streaming_B_state)
  have out: "0 < length (calls (session_A joined_B))"
    "\<not> incoming (calls (session_A joined_B) ! 0)"
    "call_peer (calls (session_A joined_B) ! 0) = ''B''"
    "map_of (connections (session_A joined_B)) ''B'' = Some 0"
    by (simp_all add: joined_B_state)
  show ?thesis
    using pre out
      close_and_error_events [where c = 0 and w = "session_A streaming_B"]
      close_and_error_events [where c = 0 and w = "session_A joined_B"]
    by simp
qed

text \<open>
  Claim C8 as stated fails: \<open>A\<close> has answered a call of \<open>B\<close>, connection 0, which has
  received its stream. An \<^verbatim>\<open>error\<close> event on that connection leaves \<open>B\<close> in the registry
  and the participant count at 2.
\<close>

theorem error_event_keeps_connection:
  "connections (session_A (streaming_B @ [ErrorEv 0])) = [(''B'', 0)] \<and>
   participantCount (session_A (streaming_B @ [ErrorEv 0])) = 2 \<and>
   connections (session_A streaming_B) = [(''B'', 0)] \<and>
   participantCount (session_A streaming_B) = 2"
proof -
  have "session_A (streaming_B @ [ErrorEv 0]) = callError 0 (session_A streaming_B)"
    by (simp add: session_A_def run_append) (simp add: run_def)
  then show ?thesis
    by (simp add: streaming_B_state callError_def onCallError_def)
qed


section \<open>Turning the camera off and on again\<close>

text \<open>
  Claim C3 on the code. \<open>A\<close> has answered a call of \<open>B\<close>; the connection has a sender for
  the microphone track \<open>a1\<close> and a sender for the camera track \<open>v1\<close>. The camera is turned off and on
  again, the camera coming back as track \<open>v2\<close>. The local stream then has one video track
  again, \<open>v2\<close>, but the video sender of the connection has no track: turning the camera on
  looks for a sender whose track is a video track, and the sender was given no track when
  the camera was turned off.
\<close>

theorem toggleVideo_off_on_leaves_sender_empty:
  "localStream (session_A called_by_B) = Some [a1, v1] \<and>
   map peerConnection (calls (session_A called_by_B)) =
     [Some [\<lparr>sender_track = Some a1\<rparr>, \<lparr>sender_track = Some v1\<rparr>]] \<and>
   localStream (toggleVideo (CameraStream [v2]) (toggleVideo CameraThrows (session_A called_by_B))) =
     Some [a1, v2] \<and>
   isVideoEnabled (toggleVideo (CameraStream [v2]) (toggleVideo CameraThrows (session_A called_by_B))) \<and>
   map peerConnection
     (calls (toggleVideo (CameraStream [v2]) (toggleVideo CameraThrows (session_A called_by_B)))) =
     [Some [\<lparr>sender_track = Some a1\<rparr>, \<lparr>sender_track = None\<rparr>]]"
  by (simp add: called_by_B_state toggleVideo_def videoOffTrack_def replaceVideoIn_def
        getVideoTracks_def addTrack_def removeTrack_def carries_def isVideoSender_def
        turnedOn_def values_of_def isArrayIndex_def isDigit_def decimal_def log_def
        senders_a1_v1_def a1_def v1_def v2_def Let_def)


section \<open>Starting a session\<close>

text \<open>
  Claim C7. \<^verbatim>\<open>initPeer\<close> first requests video and audio. When that request succeeds, its
  stream is the local stream. When it fails with the name \<^verbatim>\<open>NotReadableError\<close> or
  \<^verbatim>\<open>AbortError\<close>, audio alone is requested: on success that stream is the local stream,
  video is marked disabled and a warning is shown; on failure the local stream is empty and
  audio and video are both marked disabled. In these three cases the transport peer is
  created. When the first request fails with any other name, the status is \<^verbatim>\<open>error\<close>, no
  second request is made, no local stream is set and no peer is created.
\<close>

theorem initPeer_media_fallback:
  "(localStream (initPeer thr (Inr s) second w) = Some s \<and>
    isAudioEnabled (initPeer thr (Inr s) second w) = isAudioEnabled w \<and>
    isVideoEnabled (initPeer thr (Inr s) second w) = isVideoEnabled w \<and>
    trace (initPeer thr (Inr s) second w) = trace w @ [GetUserMedia True True, NewPeer] \<and>
    (\<not> thr NewPeer \<longrightarrow>
       peer (initPeer thr (Inr s) second w) \<and>
       errorMessage (initPeer thr (Inr s) second w) = errorMessage w \<and>
       connectionStatus (initPeer thr (Inr s) second w) = connectionStatus w)) \<and>
   (name = ''NotReadableError'' \<or> name = ''AbortError'' \<longrightarrow>
      localStream (initPeer thr (Inl name) (Inr s) w) = Some s \<and>
      \<not> isVideoEnabled (initPeer thr (Inl name) (Inr s) w) \<and>
      isAudioEnabled (initPeer thr (Inl name) (Inr s) w) = isAudioEnabled w \<and>
      trace (initPeer thr (Inl name) (Inr s) w) =
        trace w @ [GetUserMedia True True, GetUserMedia False True, NewPeer] \<and>
      (\<not> thr NewPeer \<longrightarrow>
         peer (initPeer thr (Inl name) (Inr s) w) \<and>
         errorMessage (initPeer thr (Inl name) (Inr s) w) =
           ''Camera is in use by another application. Using audio only mode.'')) \<and>
   (name = ''NotReadableError'' \<or> name = ''AbortError'' \<longrightarrow>
      localStream (initPeer thr (Inl name) (Inl audioErr) w) = Some [] \<and>
      \<not> isVideoEnabled (initPeer thr (Inl name) (Inl audioErr) w) \<and>
      \<not> isAudioEnabled (initPeer thr (Inl name) (Inl audioErr) w) \<and>
      trace (initPeer thr (Inl name) (Inl audioErr) w) =
        trace w @ [GetUserMedia True True, GetUserMedia False True, NewPeer] \<and>
      (\<not> thr NewPeer \<longrightarrow>
         peer (initPeer thr (Inl name) (Inl audioErr) w) \<and>
         connectionStatus (initPeer thr (Inl name) (Inl audioErr) w) = Connected \<and>
         errorMessage (initPeer thr (Inl name) (Inl audioErr) w) =
           ''Could not access camera or microphone. Joining in view-only mode.'')) \<and>
   (name \<noteq> ''NotReadableError'' \<and> name \<noteq> ''AbortError'' \<longrightarrow>
      connectionStatus (initPeer thr (Inl name) second w) = Error \<and>
      errorMessage (initPeer thr (Inl name) second w) = ''Failed to initialize video chat'' \<and>
      localStream (initPeer thr (Inl name) second w) = localStream w \<and>
      peer (initPeer thr (Inl name) second w) = peer w \<and>
      trace (initPeer thr (Inl name) second w) = trace w @ [GetUserMedia True True])"
  by (simp add: initPeer_def acquireMedia_def failedToInitialize_def setLocalStream_def
        log_def Let_def)

theorem initPeer_media_fallback_witness:
  "localStream (initPeer nothing_throws (Inr [a1, v1]) (Inr [a1]) initial) = Some [a1, v1] \<and>
   peer (initPeer nothing_throws (Inr [a1, v1]) (Inr [a1]) initial) \<and>
   localStream (initPeer nothing_throws (Inl ''NotReadableError'') (Inr [a1]) initial) = Some [a1] \<and>
   \<not> isVideoEnabled (initPeer nothing_throws (Inl ''NotReadableError'') (Inr [a1]) initial) \<and>
   peer (initPeer nothing_throws (Inl ''NotReadableError'') (Inr [a1]) initial) \<and>
   localStream (initPeer nothing_throws (Inl ''AbortError'') (Inl ''NotAllowedError'') initial) =
     Some [] \<and>
   \<not> isAudioEnabled (initPeer nothing_throws (Inl ''AbortError'') (Inl ''NotAllowedError'') initial) \<and>
   peer (initPeer nothing_throws (Inl ''AbortError'') (Inl ''NotAllowedError'') initial) \<and>
   connectionStatus (initPeer nothing_throws (Inl ''NotAllowedError'') (Inr [a1]) initial) = Error \<and>
   localStream (initPeer nothing_throws (Inl ''NotAllowedError'') (Inr [a1]) initial) = None \<and>
   \<not> peer (initPeer nothing_throws (Inl ''NotAllowedError'') (Inr [a1]) initial) \<and>
   trace (initPeer nothing_throws (Inl ''NotAllowedError'') (Inr [a1]) initial) =
     [GetUserMedia True True]"
  using
    initPeer_media_fallback [where thr = nothing_throws and s = "[a1, v1]" and second = "Inr [a1]"
      and w = initial and name = "''NotReadableError''" and audioErr = "''NotAllowedError''"]
    initPeer_media_fallback [where thr = nothing_throws and s = "[a1]" and second = "Inr [a1]"
      and w = initial and name = "''NotReadableError''" and audioErr = "''NotAllowedError''"]
    initPeer_media_fallback [where thr = nothing_throws and s = "[a1]" and second = "Inr [a1]"
      and w = initial and name = "''AbortError''" and audioErr = "''NotAllowedError''"]
    initPeer_media_fallback [where thr = nothing_throws and s = "[a1]" and second = "Inr [a1]"
      and w = initial and name = "''NotAllowedError''" and audioErr = "''NotAllowedError''"]
  by (simp add: nothing_throws_def initial_def)

text \<open>
  Claim C9. When the resolved room id is the empty string, the effect sets the error
  message \<^verbatim>\<open>Room ID is missing\<close> and the status \<^verbatim>\<open>error\<close> and does nothing else: no call
  into the platform is issued (no media request, no peer, no channel), no local stream and
  no peer are set, and no cleanup function is registered.
\<close>

theorem missing_room_id:
  "actualRoomId roomId roomIdFromState id' = [] \<Longrightarrow>
     videoRoomEffect thr (actualRoomId roomId roomIdFromState id') first second w =
       w\<lparr>cleanupFunctionsRef := [], errorMessage := ''Room ID is missing'',
         connectionStatus := Error\<rparr> \<and>
     trace (videoRoomEffect thr (actualRoomId roomId roomIdFromState id') first second w) = trace w \<and>
     peer (videoRoomEffect thr (actualRoomId roomId roomIdFromState id') first second w) = peer w \<and>
     localStream (videoRoomEffect thr (actualRoomId roomId roomIdFromState id') first second w) =
       localStream w"
  by (simp add: videoRoomEffect_def)

theorem missing_room_id_witness:
  "actualRoomId [] None (Some []) = [] \<and>
   videoRoomEffect nothing_throws (actualRoomId [] None (Some [])) (Inr [a1, v1]) (Inr [a1]) initial =
     initial\<lparr>cleanupFunctionsRef := [], errorMessage := ''Room ID is missing'',
       connectionStatus := Error\<rparr> \<and>
   trace (videoRoomEffect nothing_throws (actualRoomId [] None (Some [])) (Inr [a1, v1]) (Inr [a1])
     initial) = []"
proof -
  have empty: "actualRoomId [] None (Some []) = []"
    by (simp add: actualRoomId_def orEmpty_def)
  have "trace initial = []"
    by (simp add: initial_def)
  then show ?thesis
    using empty
      missing_room_id [OF empty, where thr = nothing_throws and first = "Inr [a1, v1]"
        and second = "Inr [a1]" and w = initial]
    by simp
qed


section \<open>Leaving the room\<close>

text \<open>
  Claim C4, as amended. \<^verbatim>\<open>leaveRoom\<close> runs four blocks in this order, whatever throws:
  (1) the cleanup functions of listener and announcer, each in a \<^verbatim>\<open>try\<close> of its own, after
  which the list of cleanup functions is empty; (2) \<^verbatim>\<open>stop\<close> on the tracks of the local
  stream, then of the screen-share stream; (3) \<^verbatim>\<open>close\<close> on the connections of the registry,
  after which the registry is emptied; (4) \<^verbatim>\<open>disconnect\<close> and \<^verbatim>\<open>destroy\<close> on the peer; then
  it navigates away. Inside a block the first call that throws ends the block (the registry
  is then not emptied), and the next block starts all the same: the first call of each of
  the blocks (2) to (4) is always issued.
\<close>

theorem leaveRoom_order:
  "trace (fst (leaveRoom thr w)) =
     trace w @ concat (map (\<lambda>c. tried thr (cleanupCalls c)) (cleanupFunctionsRef w)) @
     tried thr (stopCalls w) @ tried thr (closeCalls w) @ tried thr (peerCalls w) @ [Navigate] \<and>
   cleanupFunctionsRef (fst (leaveRoom thr w)) = [] \<and>
   connections (fst (leaveRoom thr w)) =
     (if \<exists>a\<in>set (closeCalls w). thr a then connections w else []) \<and>
   (\<forall>a \<in> set (take 1 (stopCalls w) @ take 1 (closeCalls w) @ take 1 (peerCalls w)).
      a \<in> set (trace (fst (leaveRoom thr w))))"
proof -
  let ?t = "trace (fst (leaveRoom thr w))"
  have first: "a \<in> set (take 1 as) \<Longrightarrow> a \<in> set (tried thr as)" for a as
    by (cases as) simp_all
  have order: "?t =
     trace w @ concat (map (\<lambda>c. tried thr (cleanupCalls c)) (cleanupFunctionsRef w)) @
     tried thr (stopCalls w) @ tried thr (closeCalls w) @ tried thr (peerCalls w) @ [Navigate]"
    by (simp add: leaveRoom_closed_form leaveCalls_def)
  have written: "cleanupFunctionsRef (fst (leaveRoom thr w)) = []"
    "connections (fst (leaveRoom thr w)) =
       (if \<exists>a\<in>set (closeCalls w). thr a then connections w else [])"
    by (simp_all add: leaveRoom_closed_form registryAfterLeave_def)
  have started: "a \<in> set ?t"
    if "a \<in> set (take 1 (stopCalls w) @ take 1 (closeCalls w) @ take 1 (peerCalls w))" for a
  proof -
    from that consider "a \<in> set (take 1 (stopCalls w))" | "a \<in> set (take 1 (closeCalls w))"
      | "a \<in> set (take 1 (peerCalls w))"
      by auto
    then show ?thesis
      by cases (simp_all add: order first)
  qed
  from order written started show ?thesis
    by blast
qed

theorem leaveRoom_order_witness:
  "trace (fst (leaveRoom microphone_stop_throws (session_A streaming_B))) =
     trace (session_A streaming_B) @
     [ChannelClose ListenerChannel, ClearInterval, ChannelClose AnnouncerChannel,
      TrackStop ''a1'', ConnClose 0, PeerDisconnect, PeerDestroy, Navigate] \<and>
   cleanupFunctionsRef (fst (leaveRoom microphone_stop_throws (session_A streaming_B))) = [] \<and>
   connections (fst (leaveRoom microphone_stop_throws (session_A streaming_B))) = []"
  using leaveRoom_order [where thr = microphone_stop_throws and w = "session_A streaming_B"]
  by (simp add: streaming_B_state stopCalls_def closeCalls_def peerCalls_def getTracks_def
        values_of_def isArrayIndex_def isDigit_def decimal_def microphone_stop_throws_def a1_def v1_def)

text \<open>
  Claim C4 as stated fails on the order: with the answered call of \<open>B\<close> in the registry,
  \<^verbatim>\<open>leaveRoom\<close> stops the local tracks before it closes that connection.
\<close>

theorem leaveRoom_stops_tracks_before_closing:
  "trace (fst (leaveRoom nothing_throws (session_A streaming_B))) =
     trace (session_A streaming_B) @
     [ChannelClose ListenerChannel, ClearInterval, ChannelClose AnnouncerChannel,
      TrackStop ''a1'', TrackStop ''v1'', ConnClose 0, PeerDisconnect, PeerDestroy, Navigate] \<and>
   issued_before (TrackStop ''v1'') (ConnClose 0)
     (trace (fst (leaveRoom nothing_throws (session_A streaming_B)))) \<and>
   \<not> issued_before (ConnClose 0) (TrackStop ''v1'')
     (trace (fst (leaveRoom nothing_throws (session_A streaming_B))))"
  by (simp add: leaveRoom_closed_form leaveCalls_def streaming_B_state stopCalls_def
        closeCalls_def peerCalls_def getTracks_def values_of_def isArrayIndex_def isDigit_def
        decimal_def nothing_throws_def
        issued_before_def a1_def v1_def)

lemma registryAfterLeave_again:
  "registryAfterLeave thr
     (w\<lparr>cleanupFunctionsRef := [], connections := registryAfterLeave thr w,
        listeners := ls, trace := t\<rparr>) =
   registryAfterLeave thr w"
  by (simp add: registryAfterLeave_def closeCalls_def)

text \<open>
  Claim C5, as amended. Calling \<^verbatim>\<open>leaveRoom\<close> twice in a row leaves every part of the state
  other than the trace of issued calls as one call leaves it, and the second call throws
  only if \<^verbatim>\<open>navigate\<close> throws. After a call in which closing no connection throws, the
  registry is empty. \<^verbatim>\<open>leaveRoom\<close> itself writes neither the status (only the handlers of
  the peer's \<^verbatim>\<open>disconnected\<close> and \<^verbatim>\<open>error\<close> events do) nor the local or screen-share
  stream, so the streams keep their tracks and the second call issues \<^verbatim>\<open>stop\<close> on each of
  them again, and \<^verbatim>\<open>disconnect\<close> and \<^verbatim>\<open>destroy\<close> on the peer again.
\<close>

theorem leaveRoom_twice:
  "(fst (leaveRoom thr (fst (leaveRoom thr w))))\<lparr>trace := []\<rparr> =
     (fst (leaveRoom thr w))\<lparr>trace := []\<rparr> \<and>
   snd (leaveRoom thr (fst (leaveRoom thr w))) = thr Navigate \<and>
   ((\<forall>a\<in>set (closeCalls w). \<not> thr a) \<longrightarrow> connections (fst (leaveRoom thr w)) = []) \<and>
   connectionStatus (fst (leaveRoom thr w)) = connectionStatus w \<and>
   localStream (fst (leaveRoom thr w)) = localStream w \<and>
   screenShareStream (fst (leaveRoom thr w)) = screenShareStream w \<and>
   trace (fst (leaveRoom thr (fst (leaveRoom thr w)))) =
     trace (fst (leaveRoom thr w)) @ tried thr (stopCalls w) @
     tried thr (map ConnClose (values_of (connections (fst (leaveRoom thr w))))) @
     tried thr (peerCalls w) @ [Navigate]"
  by (simp add: leaveRoom_closed_form registryAfterLeave_again)
     (simp add: leaveCalls_def registryAfterLeave_def stopCalls_def closeCalls_def peerCalls_def)

theorem leaveRoom_twice_witness:
  "(fst (leaveRoom nothing_throws (fst (leaveRoom nothing_throws (session_A streaming_B)))))
     \<lparr>trace := []\<rparr> =
     (fst (leaveRoom nothing_throws (session_A streaming_B)))\<lparr>trace := []\<rparr> \<and>
   \<not> snd (leaveRoom nothing_throws (fst (leaveRoom nothing_throws (session_A streaming_B)))) \<and>
   connections (fst (leaveRoom nothing_throws (session_A streaming_B))) = [] \<and>
   localStream (fst (leaveRoom nothing_throws (session_A streaming_B))) = Some [a1, v1]"
  using leaveRoom_twice [where thr = nothing_throws and w = "session_A streaming_B"]
  by (simp add: nothing_throws_def streaming_B_state)

text \<open>
  Claim C5 as stated fails. After \<^verbatim>\<open>leaveRoom\<close> the local stream still has its two tracks,
  and a second \<^verbatim>\<open>leaveRoom\<close> stops both tracks again and disconnects and destroys the peer
  again. After a start that failed for want of camera and microphone there is no peer, the
  status is \<^verbatim>\<open>error\<close>, and it is still \<^verbatim>\<open>error\<close> after two calls of \<^verbatim>\<open>leaveRoom\<close>.
\<close>

theorem second_leaveRoom_releases_again:
  "localStream (session_A (streaming_B @ [LeaveRoom])) = Some [a1, v1] \<and>
   trace (session_A (streaming_B @ [LeaveRoom, LeaveRoom])) =
     trace (session_A (streaming_B @ [LeaveRoom])) @
     [TrackStop ''a1'', TrackStop ''v1'', PeerDisconnect, PeerDestroy, Navigate] \<and>
   \<not> peer (session_A failed_start) \<and>
   connectionStatus (session_A (failed_start @ [LeaveRoom, LeaveRoom])) = Error"
proof -
  have "session_A (streaming_B @ [LeaveRoom]) =
          fst (leaveRoom nothing_throws (session_A streaming_B))"
    and "session_A (streaming_B @ [LeaveRoom, LeaveRoom]) =
          fst (leaveRoom nothing_throws (fst (leaveRoom nothing_throws (session_A streaming_B))))"
    and "session_A (failed_start @ [LeaveRoom, LeaveRoom]) =
          fst (leaveRoom nothing_throws (fst (leaveRoom nothing_throws (session_A failed_start))))"
    by (simp_all add: session_A_def run_append) (simp_all add: run_def)
  moreover have "\<not> peer (session_A failed_start)"
    and "connectionStatus (session_A failed_start) = Error"
    by (simp_all add: session_A_def failed_start_def run_def initial_def handler_defs Let_def)
  ultimately show ?thesis
    by (simp add: leaveRoom_closed_form leaveCalls_def registryAfterLeave_def streaming_B_state
          stopCalls_def closeCalls_def peerCalls_def getTracks_def values_of_def
          isArrayIndex_def isDigit_def decimal_def nothing_throws_def a1_def v1_def)
qed


end
